theory Spec2Isabelle
  imports Complex_Main
begin

section \<open>Errors\<close>

text \<open>
  The exceptions that the modelled parts of \<^verbatim>\<open>morphic.py\<close> can raise. Every raise of
  the source is a branch of the model that returns \<open>Inl\<close> of one of them.
\<close>

datatype error =
    NameError string
  | AttributeError string
  | TypeError string
  | ZeroDivisionError
  | OverflowError
  | Exception string

section \<open>Global functions\<close>

definition radians :: "real \<Rightarrow> real" where
  "radians degrees = degrees * pi / 180"

definition getMinimumFontHeight :: int where
  "getMinimumFontHeight = 1"

text \<open>Python's \<^verbatim>\<open>a / b\<close> on numbers: it raises \<^verbatim>\<open>ZeroDivisionError\<close> when \<open>b\<close> is zero.\<close>

definition py_truediv :: "real \<Rightarrow> real \<Rightarrow> error + real" where
  "py_truediv a b = (if b = 0 then Inl ZeroDivisionError else Inr (a / b))"

text \<open>Sequencing of computations that may raise: the first error aborts.\<close>

definition and_then :: "error + 'a \<Rightarrow> ('a \<Rightarrow> error + 'b) \<Rightarrow> error + 'b" where
  "and_then m f = (case m of Inl e \<Rightarrow> Inl e | Inr v \<Rightarrow> f v)"

section \<open>Animations\<close>

subsection \<open>The predefined easing functions\<close>

text \<open>
  The lambdas of the dictionary \<^verbatim>\<open>self.easings\<close>, in the order of the source. Each division
  of the source is a \<open>py_truediv\<close>, evaluated where Python evaluates it.
\<close>

definition linear :: "real \<Rightarrow> error + real" where
  "linear t = Inr t"

definition sinusoidal :: "real \<Rightarrow> error + real" where
  "sinusoidal t = Inr (1 - cos (radians (t * 90)))"

definition quadratic :: "real \<Rightarrow> error + real" where
  "quadratic t = Inr (if t < 1 / 2 then 2 * t ^ 2 else 4 * t - 2 * t ^ 2 - 1)"

definition cubic :: "real \<Rightarrow> error + real" where
  "cubic t = Inr (if t < 1 / 2 then 4 * t ^ 3 else (t - 1) * 4 * t ^ 2 - 8 * t - 3)"

definition elastic :: "real \<Rightarrow> error + real" where
  "elastic t =
     (if t < 1 / 2
      then and_then (py_truediv (sin (50 * t)) (100 * t))
             (\<lambda>q. Inr (sin (50 * t) / 100 + q))
      else and_then (py_truediv (sin (50 * t)) (100 * t))
             (\<lambda>q. Inr (sin (50 * t) / 50 - q + 1)))"

definition sine_in :: "real \<Rightarrow> error + real" where
  "sine_in t = Inr (1 - sin (radians (90 + t * 90)))"

definition quad_in :: "real \<Rightarrow> error + real" where
  "quad_in t = Inr (t ^ 2)"

definition cubic_in :: "real \<Rightarrow> error + real" where
  "cubic_in t = Inr (t ^ 3)"

definition elastic_in :: "real \<Rightarrow> error + real" where
  "elastic_in t =
     and_then (py_truediv 1 (25 * t)) (\<lambda>q. Inr ((1 / 25 - q) * sin (25 * t) + 1))"

definition sine_out :: "real \<Rightarrow> error + real" where
  "sine_out t = Inr (sin (radians (t * 90)))"

definition quad_out :: "real \<Rightarrow> error + real" where
  "quad_out t = Inr (t * (2 - t))"

definition elastic_out :: "real \<Rightarrow> error + real" where
  "elastic_out t =
     and_then (py_truediv t (25 * (t - 1))) (\<lambda>q. Inr (q * sin (25 * t)))"

definition easings :: "(string \<times> (real \<Rightarrow> error + real)) list" where
  "easings =
     [(''linear'', linear), (''sinusoidal'', sinusoidal), (''quadratic'', quadratic),
      (''cubic'', cubic), (''elastic'', elastic),
      (''sine_in'', sine_in), (''quad_in'', quad_in), (''cubic_in'', cubic_in),
      (''elastic_in'', elastic_in),
      (''sine_out'', sine_out), (''quad_out'', quad_out), (''elastic_out'', elastic_out)]"

text \<open>
  \<^verbatim>\<open>d.name\<close> on a Python dict looks \<open>name\<close> up among the attributes of the dict object
  (its methods), never among its keys: for a name that is no dict method it raises
  \<^verbatim>\<open>AttributeError\<close>. \<^verbatim>\<open>d[name]\<close> is \<open>map_of d name\<close>.
\<close>

definition dict_getattr :: "(string \<times> 'v) list \<Rightarrow> string \<Rightarrow> error + 'v" where
  "dict_getattr d name = Inl (AttributeError name)"

subsection \<open>The Animation class\<close>

text \<open>
  An animation reads and writes some target state \<open>'s\<close> through its getter and setter
  closures; the optional completion callback acts on the same state. Numbers are reals,
  clock readings (\<^verbatim>\<open>time.time_ns()//1000000\<close>) are integers and are passed in as \<open>now\<close>.
  The getter is called with the animation as its argument in the source; the closures
  modelled here read the target state only.
\<close>

record 's animation =
  setter :: "real \<Rightarrow> 's \<Rightarrow> 's"
  getter :: "'s \<Rightarrow> real"
  delta :: real
  duration :: real
  easing :: "real \<Rightarrow> error + real"
  onComplete :: "('s \<Rightarrow> 's) option"
  endTime :: "int option"
  destination :: "real option"
  isActive :: bool

text \<open>The \<^verbatim>\<open>easing\<close> argument of the constructor: a string, a function or \<^verbatim>\<open>None\<close>.\<close>

datatype easing_arg =
    EasingName string
  | EasingFunction "real \<Rightarrow> error + real"
  | EasingNone

definition start :: "'s animation \<Rightarrow> int \<Rightarrow> 's \<Rightarrow> 's animation" where
  "start self now s =
     self\<lparr>endTime := Some now,
          destination := Some (getter self s + delta self),
          isActive := True\<rparr>"

definition select_easing :: "easing_arg \<Rightarrow> error + (real \<Rightarrow> error + real)" where
  "select_easing e =
     (case e of
        EasingName name \<Rightarrow>
          (case map_of easings name of
             Some f \<Rightarrow> Inr f
           | None \<Rightarrow> dict_getattr easings ''sinusoidal'')
      | EasingFunction f \<Rightarrow> Inr f
      | EasingNone \<Rightarrow> dict_getattr easings ''sinusoidal'')"

definition Animation_init ::
  "(real \<Rightarrow> 's \<Rightarrow> 's) \<Rightarrow> ('s \<Rightarrow> real) \<Rightarrow> real \<Rightarrow> real \<Rightarrow> easing_arg \<Rightarrow> ('s \<Rightarrow> 's) option
     \<Rightarrow> int \<Rightarrow> 's \<Rightarrow> error + 's animation" where
  "Animation_init sett gett dlt dur e onc now s =
     and_then (select_easing e)
       (\<lambda>f. Inr (start \<lparr>setter = sett, getter = gett, delta = dlt, duration = dur,
                         easing = f, onComplete = onc, endTime = None,
                         destination = None, isActive = False\<rparr> now s))"

text \<open>
  \<^verbatim>\<open>step\<close> at clock reading \<open>now\<close>. It returns the animation and the target state after
  the calls of the setter and of the completion callback. The fields \<open>endTime\<close> and
  \<open>destination\<close> are \<^verbatim>\<open>None\<close> only inside the constructor, before \<open>start\<close> has run;
  \<open>isActive\<close> is set by \<open>start\<close> alone, after both have been assigned.
\<close>

definition step :: "'s animation \<Rightarrow> int \<Rightarrow> 's \<Rightarrow> error + ('s animation \<times> 's)" where
  "step self now s =
     (if \<not> isActive self then Inr (self, s)
      else case endTime self of
        None \<Rightarrow> Inl (TypeError ''>'')
      | Some e \<Rightarrow>
          if now > e then
            (case destination self of
               None \<Rightarrow> Inl (TypeError ''setter'')
             | Some d \<Rightarrow>
                 (let s1 = setter self d s
                  in Inr (self\<lparr>isActive := False\<rparr>,
                          (case onComplete self of None \<Rightarrow> s1 | Some f \<Rightarrow> f s1))))
          else
            and_then (py_truediv (real_of_int (e - now)) (duration self)) (\<lambda>frac.
            and_then (easing self frac) (\<lambda>y.
              (case destination self of
                 None \<Rightarrow> Inl (TypeError ''-'')
               | Some d \<Rightarrow> Inr (self, setter self (d - delta self * y) s)))))"

text \<open>A scheduler: \<open>step\<close> at each clock reading of a list, in order.\<close>

fun steps :: "'s animation \<Rightarrow> int list \<Rightarrow> 's \<Rightarrow> error + ('s animation \<times> 's)" where
  "steps self [] s = Inr (self, s)"
| "steps self (now # later) s =
     and_then (step self now s) (\<lambda>(self1, s1). steps self1 later s1)"

section \<open>Points\<close>

subsection \<open>Python numbers\<close>

text \<open>
  A Python number is an \<^verbatim>\<open>int\<close> (unbounded) or a \<^verbatim>\<open>float\<close>, idealised as a real. The
  arithmetic below follows Python: two ints give an int, anything else a float; \<^verbatim>\<open>/\<close>
  always gives a float; \<^verbatim>\<open>/\<close>, \<^verbatim>\<open>//\<close> and \<^verbatim>\<open>%\<close> raise on a zero divisor.
\<close>

datatype pynum = PInt int | PFloat real

fun num_val :: "pynum \<Rightarrow> real" where
  "num_val (PInt i) = real_of_int i"
| "num_val (PFloat r) = r"

fun is_int :: "pynum \<Rightarrow> bool" where
  "is_int (PInt i) = True"
| "is_int (PFloat r) = False"

text \<open>\<^verbatim>\<open>float(x)\<close> and \<^verbatim>\<open>int(f)\<close>, which truncates towards zero.\<close>

definition py_float :: "pynum \<Rightarrow> real" where
  "py_float x = num_val x"

definition py_int :: "real \<Rightarrow> int" where
  "py_int f = (if 0 \<le> f then \<lfloor>f\<rfloor> else \<lceil>f\<rceil>)"

fun py_add :: "pynum \<Rightarrow> pynum \<Rightarrow> pynum" where
  "py_add (PInt i) (PInt j) = PInt (i + j)"
| "py_add a b = PFloat (num_val a + num_val b)"

fun py_sub :: "pynum \<Rightarrow> pynum \<Rightarrow> pynum" where
  "py_sub (PInt i) (PInt j) = PInt (i - j)"
| "py_sub a b = PFloat (num_val a - num_val b)"

fun py_mul :: "pynum \<Rightarrow> pynum \<Rightarrow> pynum" where
  "py_mul (PInt i) (PInt j) = PInt (i * j)"
| "py_mul a b = PFloat (num_val a * num_val b)"

definition num_truediv :: "pynum \<Rightarrow> pynum \<Rightarrow> error + pynum" where
  "num_truediv a b =
     (if num_val b = 0 then Inl ZeroDivisionError else Inr (PFloat (num_val a / num_val b)))"

fun py_floordiv :: "pynum \<Rightarrow> pynum \<Rightarrow> error + pynum" where
  "py_floordiv (PInt i) (PInt j) = (if j = 0 then Inl ZeroDivisionError else Inr (PInt (i div j)))"
| "py_floordiv a b =
     (if num_val b = 0 then Inl ZeroDivisionError
      else Inr (PFloat (of_int \<lfloor>num_val a / num_val b\<rfloor>)))"

fun py_mod :: "pynum \<Rightarrow> pynum \<Rightarrow> error + pynum" where
  "py_mod (PInt i) (PInt j) = (if j = 0 then Inl ZeroDivisionError else Inr (PInt (i mod j)))"
| "py_mod a b =
     (if num_val b = 0 then Inl ZeroDivisionError
      else Inr (PFloat (num_val a - of_int \<lfloor>num_val a / num_val b\<rfloor> * num_val b)))"

fun py_neg :: "pynum \<Rightarrow> pynum" where
  "py_neg (PInt i) = PInt (- i)"
| "py_neg (PFloat r) = PFloat (- r)"

fun py_abs :: "pynum \<Rightarrow> pynum" where
  "py_abs (PInt i) = PInt \<bar>i\<bar>"
| "py_abs (PFloat r) = PFloat \<bar>r\<bar>"

text \<open>The builtins \<^verbatim>\<open>max(a, b)\<close> and \<^verbatim>\<open>min(a, b)\<close>: the first argument wins a tie.\<close>

definition py_max :: "pynum \<Rightarrow> pynum \<Rightarrow> pynum" where
  "py_max a b = (if num_val b > num_val a then b else a)"

definition py_min :: "pynum \<Rightarrow> pynum \<Rightarrow> pynum" where
  "py_min a b = (if num_val b < num_val a then b else a)"

text \<open>
  \<^verbatim>\<open>round(x, ndigits)\<close> rounds half to even; it gives an int for an int and a float for
  a float. \<^verbatim>\<open>math.floor\<close> and \<^verbatim>\<open>math.ceil\<close> give ints.
\<close>

definition round_half_even :: "real \<Rightarrow> int" where
  "round_half_even r =
     (let f = \<lfloor>r\<rfloor>; d = r - of_int f
      in if d < 1 / 2 then f else if d > 1 / 2 then f + 1 else if even f then f else f + 1)"

fun py_round :: "pynum \<Rightarrow> int \<Rightarrow> pynum" where
  "py_round (PInt i) ndigits =
     (if 0 \<le> ndigits then PInt i
      else PInt (round_half_even (of_int i / 10 ^ nat (- ndigits)) * 10 ^ nat (- ndigits)))"
| "py_round (PFloat r) ndigits =
     (if 0 \<le> ndigits
      then PFloat (of_int (round_half_even (r * 10 ^ nat ndigits)) / 10 ^ nat ndigits)
      else PFloat (of_int (round_half_even (r / 10 ^ nat (- ndigits))) * 10 ^ nat (- ndigits)))"

definition math_floor :: "pynum \<Rightarrow> pynum" where
  "math_floor x = PInt \<lfloor>num_val x\<rfloor>"

definition math_ceil :: "pynum \<Rightarrow> pynum" where
  "math_ceil x = PInt \<lceil>num_val x\<rceil>"

subsection \<open>The Point class\<close>

text \<open>
  The attributes of a Python object hold any value, so the coordinates are Python
  numbers. \<^verbatim>\<open>Point.__init__\<close> stores \<^verbatim>\<open>int(float(x))\<close> and \<^verbatim>\<open>int(float(y))\<close>.
\<close>

record point =
  point_x :: pynum
  point_y :: pynum

definition Point_init :: "pynum \<Rightarrow> pynum \<Rightarrow> point" where
  "Point_init x y = \<lparr>point_x = PInt (py_int (py_float x)), point_y = PInt (py_int (py_float y))\<rparr>"

text \<open>The right operand of an operator: a Point (\<^verbatim>\<open>isinstance(other, Point)\<close>) or a number.\<close>

datatype operand = OPoint point | ONum pynum

definition asTuple :: "point \<Rightarrow> pynum \<times> pynum" where
  "asTuple self = (point_x self, point_y self)"

definition Point_copy :: "point \<Rightarrow> point" where
  "Point_copy self = Point_init (point_x self) (point_y self)"

definition Point_max :: "point \<Rightarrow> operand \<Rightarrow> point" where
  "Point_max self other =
     (case other of
        OPoint p \<Rightarrow> Point_init (py_max (point_x self) (point_x p)) (py_max (point_y self) (point_y p))
      | ONum n \<Rightarrow> self)"

definition Point_min :: "point \<Rightarrow> operand \<Rightarrow> point" where
  "Point_min self other =
     (case other of
        OPoint p \<Rightarrow> Point_init (py_min (point_x self) (point_x p)) (py_min (point_y self) (point_y p))
      | ONum n \<Rightarrow> self)"

definition Point_round :: "point \<Rightarrow> int \<Rightarrow> point" where
  "Point_round self ndigits =
     Point_init (py_round (point_x self) ndigits) (py_round (point_y self) ndigits)"

definition Point_abs :: "point \<Rightarrow> point" where
  "Point_abs self = Point_init (py_abs (point_x self)) (py_abs (point_y self))"

definition Point_neg :: "point \<Rightarrow> point" where
  "Point_neg self = Point_init (py_neg (point_x self)) (py_neg (point_y self))"

definition Point_floor :: "point \<Rightarrow> point" where
  "Point_floor self = Point_init (math_floor (point_x self)) (math_floor (point_y self))"

definition Point_ceil :: "point \<Rightarrow> point" where
  "Point_ceil self = Point_init (math_ceil (point_x self)) (math_ceil (point_y self))"

text \<open>The operators whose arithmetic cannot raise on numbers.\<close>

definition Point_add :: "point \<Rightarrow> operand \<Rightarrow> point" where
  "Point_add self other =
     (case other of
        OPoint p \<Rightarrow> Point_init (py_add (point_x self) (point_x p)) (py_add (point_y self) (point_y p))
      | ONum n \<Rightarrow> Point_init (py_add (point_x self) n) (py_add (point_y self) n))"

definition Point_sub :: "point \<Rightarrow> operand \<Rightarrow> point" where
  "Point_sub self other =
     (case other of
        OPoint p \<Rightarrow> Point_init (py_sub (point_x self) (point_x p)) (py_sub (point_y self) (point_y p))
      | ONum n \<Rightarrow> Point_init (py_sub (point_x self) n) (py_sub (point_y self) n))"

definition Point_mul :: "point \<Rightarrow> operand \<Rightarrow> point" where
  "Point_mul self other =
     (case other of
        OPoint p \<Rightarrow> Point_init (py_mul (point_x self) (point_x p)) (py_mul (point_y self) (point_y p))
      | ONum n \<Rightarrow> Point_init (py_mul (point_x self) n) (py_mul (point_y self) n))"

definition Point_radd :: "point \<Rightarrow> operand \<Rightarrow> point" where
  "Point_radd self other =
     (case other of
        OPoint p \<Rightarrow> Point_init (py_add (point_x self) (point_x p)) (py_add (point_y self) (point_y p))
      | ONum n \<Rightarrow> Point_init (py_add (point_x self) n) (py_add (point_y self) n))"

definition Point_rsub :: "point \<Rightarrow> operand \<Rightarrow> point" where
  "Point_rsub self other =
     (case other of
        OPoint p \<Rightarrow> Point_init (py_sub (point_x p) (point_x self)) (py_sub (point_y p) (point_y self))
      | ONum n \<Rightarrow> Point_init (py_sub n (point_x self)) (py_sub n (point_y self)))"

definition Point_rmul :: "point \<Rightarrow> operand \<Rightarrow> point" where
  "Point_rmul self other =
     (case other of
        OPoint p \<Rightarrow> Point_init (py_mul (point_x p) (point_x self)) (py_mul (point_y p) (point_y self))
      | ONum n \<Rightarrow> Point_init (py_mul n (point_x self)) (py_mul n (point_y self)))"

text \<open>
  The operators that divide. Python evaluates the two arguments of \<^verbatim>\<open>Point(..., ...)\<close>
  from left to right, so a zero divisor raises before the constructor is entered.
\<close>

definition both :: "error + pynum \<Rightarrow> error + pynum \<Rightarrow> error + point" where
  "both mx my = and_then mx (\<lambda>x. and_then my (\<lambda>y. Inr (Point_init x y)))"

definition Point_truediv :: "point \<Rightarrow> operand \<Rightarrow> error + point" where
  "Point_truediv self other =
     (case other of
        OPoint p \<Rightarrow> both (num_truediv (point_x self) (point_x p)) (num_truediv (point_y self) (point_y p))
      | ONum n \<Rightarrow> both (num_truediv (point_x self) n) (num_truediv (point_y self) n))"

definition Point_floordiv :: "point \<Rightarrow> operand \<Rightarrow> error + point" where
  "Point_floordiv self other =
     (case other of
        OPoint p \<Rightarrow> both (py_floordiv (point_x self) (point_x p)) (py_floordiv (point_y self) (point_y p))
      | ONum n \<Rightarrow> both (py_floordiv (point_x self) n) (py_floordiv (point_y self) n))"

definition Point_mod :: "point \<Rightarrow> operand \<Rightarrow> error + point" where
  "Point_mod self other =
     (case other of
        OPoint p \<Rightarrow> both (py_mod (point_x self) (point_x p)) (py_mod (point_y self) (point_y p))
      | ONum n \<Rightarrow> both (py_mod (point_x self) n) (py_mod (point_y self) n))"

definition Point_rtruediv :: "point \<Rightarrow> operand \<Rightarrow> error + point" where
  "Point_rtruediv self other =
     (case other of
        OPoint p \<Rightarrow> both (num_truediv (point_x p) (point_x self)) (num_truediv (point_y p) (point_y self))
      | ONum n \<Rightarrow> both (num_truediv n (point_x self)) (num_truediv n (point_y self)))"

definition Point_rfloordiv :: "point \<Rightarrow> operand \<Rightarrow> error + point" where
  "Point_rfloordiv self other =
     (case other of
        OPoint p \<Rightarrow> both (py_floordiv (point_x p) (point_x self)) (py_floordiv (point_y p) (point_y self))
      | ONum n \<Rightarrow> both (py_floordiv n (point_x self)) (py_floordiv n (point_y self)))"

definition Point_rmod :: "point \<Rightarrow> operand \<Rightarrow> error + point" where
  "Point_rmod self other =
     (case other of
        OPoint p \<Rightarrow> both (py_mod (point_x p) (point_x self)) (py_mod (point_y p) (point_y self))
      | ONum n \<Rightarrow> both (py_mod n (point_x self)) (py_mod n (point_y self)))"

text \<open>\<^verbatim>\<open>dot\<close> of two Points, as \<open>mirror\<close> calls it.\<close>

definition Point_dot :: "point \<Rightarrow> point \<Rightarrow> pynum" where
  "Point_dot self other =
     (let sto = Point_mul self (OPoint other) in py_add (point_x sto) (point_y sto))"

text \<open>
  \<^verbatim>\<open>mirror\<close> (also bound to \<^verbatim>\<open>flip\<close>). Any axis that is not a Point is replaced
  by \<^verbatim>\<open>Point(1, 1)\<close>. The source then evaluates \<^verbatim>\<open>-self.asTuple\<close>, the unary minus of a
  tuple, which Python does not define: it raises \<^verbatim>\<open>TypeError\<close>.
\<close>

definition tuple_neg :: "pynum \<times> pynum \<Rightarrow> error + (pynum \<times> pynum)" where
  "tuple_neg t = Inl (TypeError ''bad operand type for unary -: tuple'')"

definition mirror :: "point \<Rightarrow> point option \<Rightarrow> error + point" where
  "mirror self axis =
     (let axis1 = Point_abs (case axis of Some p \<Rightarrow> p | None \<Rightarrow> Point_init (PInt 1) (PInt 1));
          (vx, vy) = asTuple axis1
      in and_then (tuple_neg (asTuple self)) (\<lambda>(x, y).
         and_then (num_truediv (PInt 1) (Point_dot axis1 axis1)) (\<lambda>r.
           Inr (Point_init
             (py_add (point_x self)
                (py_mul (PInt 2)
                   (py_sub x (py_mul (py_mul (py_sub (py_mul x vx) (py_mul y vy)) r) vx))))
             (py_add (point_y self)
                (py_mul (PInt 2)
                   (py_sub y (py_mul (py_mul (py_sub (py_mul y vy) (py_mul x vx)) r) vy))))))))"

definition scale :: "point \<Rightarrow> operand \<Rightarrow> point" where
  "scale self sc = Point_mul self sc"

definition translate :: "point \<Rightarrow> operand \<Rightarrow> point" where
  "translate self dlt = Point_add self dlt"

text \<open>One call of a Point-producing method on a receiver.\<close>

datatype point_op =
    Copy | Max operand | Min operand | Round int | Abs | Neg | Mirror "point option"
  | Floor | Ceil
  | Add operand | Sub operand | Mul operand | TrueDiv operand | FloorDiv operand | Mod operand
  | RAdd operand | RSub operand | RMul operand | RTrueDiv operand | RFloorDiv operand
  | RMod operand
  | Scale operand | Translate operand

fun perform :: "point \<Rightarrow> point_op \<Rightarrow> error + point" where
  "perform self Copy = Inr (Point_copy self)"
| "perform self (Max other) = Inr (Point_max self other)"
| "perform self (Min other) = Inr (Point_min self other)"
| "perform self (Round ndigits) = Inr (Point_round self ndigits)"
| "perform self Abs = Inr (Point_abs self)"
| "perform self Neg = Inr (Point_neg self)"
| "perform self (Mirror axis) = mirror self axis"
| "perform self Floor = Inr (Point_floor self)"
| "perform self Ceil = Inr (Point_ceil self)"
| "perform self (Add other) = Inr (Point_add self other)"
| "perform self (Sub other) = Inr (Point_sub self other)"
| "perform self (Mul other) = Inr (Point_mul self other)"
| "perform self (TrueDiv other) = Point_truediv self other"
| "perform self (FloorDiv other) = Point_floordiv self other"
| "perform self (Mod other) = Point_mod self other"
| "perform self (RAdd other) = Inr (Point_radd self other)"
| "perform self (RSub other) = Inr (Point_rsub self other)"
| "perform self (RMul other) = Inr (Point_rmul self other)"
| "perform self (RTrueDiv other) = Point_rtruediv self other"
| "perform self (RFloorDiv other) = Point_rfloordiv self other"
| "perform self (RMod other) = Point_rmod self other"
| "perform self (Scale sc) = Inr (scale self sc)"
| "perform self (Translate dlt) = Inr (translate self dlt)"

definition int_point :: "point \<Rightarrow> bool" where
  "int_point p = (is_int (point_x p) \<and> is_int (point_y p))"

text \<open>
  The Points a program can reach through the class: those the constructor builds and
  those a method returns on a reachable receiver (with any operand).
\<close>

inductive reachable :: "point \<Rightarrow> bool" where
  constructed: "reachable (Point_init x y)"
| returned: "reachable p \<Longrightarrow> perform p m = Inr q \<Longrightarrow> reachable q"

code_pred reachable .

section \<open>Module initialisation\<close>

text \<open>
  Importing \<^verbatim>\<open>morphic.py\<close> executes its top-level statements in source order against
  the module's namespace. A statement that reads a name looks it up when it runs; a
  \<^verbatim>\<open>def\<close> or \<^verbatim>\<open>class\<close> statement binds its name and runs nothing of its body.
  The string literals that stand as statements (the documentation) have no effect and
  are left out; the \<^verbatim>\<open>import\<close> statements are taken to succeed.
\<close>

record color =
  color_r :: int
  color_g :: int
  color_b :: int
  color_a :: int

fun int_of_num :: "pynum \<Rightarrow> int" where
  "int_of_num (PInt i) = i"
| "int_of_num (PFloat r) = py_int r"

definition Color_init :: "pynum \<Rightarrow> pynum \<Rightarrow> pynum \<Rightarrow> pynum \<Rightarrow> color" where
  "Color_init r g b a =
     \<lparr>color_r = int_of_num r, color_g = int_of_num g, color_b = int_of_num b,
      color_a = int_of_num a\<rparr>"

datatype pyval =
    VStr string
  | VInt int
  | VBool bool
  | VDict "(string \<times> pyval) list"
  | VModule string
  | VFunction string
  | VClass string
  | VPoint point
  | VColor color

type_synonym namespace = "(string \<times> pyval) list"

definition lookup :: "namespace \<Rightarrow> string \<Rightarrow> error + pyval" where
  "lookup ns name = (case map_of ns name of None \<Rightarrow> Inl (NameError name) | Some v \<Rightarrow> Inr v)"

definition bind :: "string \<Rightarrow> pyval \<Rightarrow> namespace \<Rightarrow> namespace" where
  "bind name v ns = (name, v) # ns"

text \<open>A positional argument, or the default of the parameter when it is not passed.\<close>

definition arg :: "pynum list \<Rightarrow> nat \<Rightarrow> pynum \<Rightarrow> pynum" where
  "arg args i dflt = (if i < length args then args ! i else dflt)"

text \<open>
  Calling a value with positional numbers: the classes \<^verbatim>\<open>Point\<close> and \<^verbatim>\<open>Color\<close> run
  their constructors, \<^verbatim>\<open>getMinimumFontHeight\<close> returns 1; the other values bound by
  this module are not called at the top level.
\<close>

definition call :: "pyval \<Rightarrow> pynum list \<Rightarrow> error + pyval" where
  "call f args =
     (case f of
        VClass c \<Rightarrow>
          (if c = ''Point''
             then Inr (VPoint (Point_init (arg args 0 (PInt 0)) (arg args 1 (PInt 0))))
           else if c = ''Color''
             then Inr (VColor (Color_init (arg args 0 (PInt 0)) (arg args 1 (PInt 0))
                                 (arg args 2 (PInt 0)) (arg args 3 (PInt 1))))
           else Inl (TypeError c))
      | VFunction n \<Rightarrow>
          (if n = ''getMinimumFontHeight'' \<and> args = [] then Inr (VInt getMinimumFontHeight)
           else Inl (TypeError n))
      | _ \<Rightarrow> Inl (TypeError ''object is not callable''))"

text \<open>
  \<^verbatim>\<open>v.name\<close>. On a dict it is \<open>dict_getattr\<close>; no other value bound by this module
  has an attribute \<^verbatim>\<open>minimumFontHeight\<close>, the only attribute read at the top level.
\<close>

definition getattr :: "pyval \<Rightarrow> string \<Rightarrow> error + pyval" where
  "getattr v name = (case v of VDict d \<Rightarrow> dict_getattr d name | _ \<Rightarrow> Inl (AttributeError name))"

type_synonym stmt = "namespace \<Rightarrow> error + namespace"

definition import_stmt :: "string \<Rightarrow> stmt" where
  "import_stmt name ns = Inr (bind name (VModule name) ns)"

definition assign :: "string \<Rightarrow> pyval \<Rightarrow> stmt" where
  "assign name v ns = Inr (bind name v ns)"

definition def_stmt :: "string \<Rightarrow> stmt" where
  "def_stmt name ns = Inr (bind name (VFunction name) ns)"

definition class_stmt :: "string \<Rightarrow> stmt" where
  "class_stmt name ns = Inr (bind name (VClass name) ns)"

text \<open>\<^verbatim>\<open>name = callee(args)\<close>.\<close>

definition assign_call :: "string \<Rightarrow> string \<Rightarrow> pynum list \<Rightarrow> stmt" where
  "assign_call name callee args ns =
     and_then (lookup ns callee) (\<lambda>f.
     and_then (call f args) (\<lambda>v. Inr (bind name v ns)))"

definition stmt_ZERO :: stmt where
  "stmt_ZERO = assign_call ''ZERO'' ''Point'' []"

definition stmt_BLACK :: stmt where
  "stmt_BLACK = assign_call ''BLACK'' ''Color'' []"

definition stmt_WHITE :: stmt where
  "stmt_WHITE = assign_call ''WHITE'' ''Color'' [PInt 255, PInt 255, PInt 255]"

definition stmt_CLEAR :: stmt where
  "stmt_CLEAR = assign_call ''CLEAR'' ''Color'' [PInt 0, PInt 0, PInt 0, PInt 0]"

definition stmt_standardSettings :: stmt where
  "stmt_standardSettings ns =
     and_then (lookup ns ''getMinimumFontHeight'') (\<lambda>f.
     and_then (call f []) (\<lambda>h.
       Inr (bind ''standardSettings''
         (VDict
           [(''minimumFontHeight'', h),
            (''globalFontFamily'', VStr ''''),
            (''menuFontName'', VStr ''sans-serif''),
            (''menuFontSize'', VInt 12),
            (''bubbleHelpFontSize'', VInt 10),
            (''prompterFontName'', VStr ''sans-serif''),
            (''prompterFontSize'', VInt 12),
            (''prompterSliderSize'', VInt 10),
            (''handleSize'', VInt 15),
            (''scrollBarSize'', VInt 9),
            (''mouseScrollAmount'', VInt 40),
            (''useSliderForInput'', VBool False),
            (''isTouchDevice'', VBool False),
            (''rasterizeSVGs'', VBool False),
            (''isFlat'', VBool False),
            (''grabThreshold'', VInt 5),
            (''showHoles'', VBool False)]) ns)))"

definition stmt_touchScreenSettings :: stmt where
  "stmt_touchScreenSettings ns =
     and_then (lookup ns ''standardSettings'') (\<lambda>std.
     and_then (getattr std ''minimumFontHeight'') (\<lambda>h.
       Inr (bind ''touchScreenSettings''
         (VDict
           [(''minimumFontHeight'', h),
            (''globalFontFamily'', VStr ''''),
            (''menuFontName'', VStr ''sans-serif''),
            (''menuFontSize'', VInt 24),
            (''bubbleHelpFontSize'', VInt 18),
            (''prompterFontName'', VStr ''sans-serif''),
            (''prompterFontSize'', VInt 24),
            (''prompterSliderSize'', VInt 20),
            (''handleSize'', VInt 26),
            (''scrollBarSize'', VInt 24),
            (''mouseScrollAmount'', VInt 40),
            (''useSliderForInput'', VBool False),
            (''isTouchDevice'', VBool True),
            (''rasterizeSVGs'', VBool False),
            (''isFlat'', VBool False),
            (''grabThreshold'', VInt 5),
            (''showHoles'', VBool False)]) ns)))"

definition stmt_MorphicPreferences :: stmt where
  "stmt_MorphicPreferences ns =
     and_then (lookup ns ''standardSettings'') (\<lambda>std. Inr (bind ''MorphicPreferences'' std ns))"

text \<open>The statements before the first constant, the settings, and the definitions after.\<close>

definition module_head :: "stmt list" where
  "module_head =
     [import_stmt ''math'', import_stmt ''re'', import_stmt ''tkinter'', import_stmt ''time'',
      assign ''morphicVersion'' (VStr ''2021-December-06''),
      assign ''modules'' (VDict []),
      assign ''useBlurredShadows'' (VBool True)]"

definition module_settings :: "stmt list" where
  "module_settings =
     [stmt_ZERO, stmt_BLACK, stmt_WHITE, stmt_CLEAR,
      stmt_standardSettings, stmt_touchScreenSettings, stmt_MorphicPreferences]"

definition module_definitions :: "stmt list" where
  "module_definitions =
     [def_stmt ''nop'', def_stmt ''localize'', def_stmt ''isNil'', def_stmt ''contains'',
      def_stmt ''detect'', def_stmt ''sizeOf'', def_stmt ''isString'', def_stmt ''isObject'',
      def_stmt ''radians'', def_stmt ''degrees'', def_stmt ''fontHeight'',
      def_stmt ''isWordChar'', def_stmt ''isURLChar'', def_stmt ''isURL'',
      def_stmt ''newCanvas'', def_stmt ''getMinimumFontHeight'',
      def_stmt ''getDocumentPositionOf'', def_stmt ''copy'',
      class_stmt ''Animation'', class_stmt ''Color'', class_stmt ''Point'']"

definition module_body :: "stmt list" where
  "module_body = module_head @ module_settings @ module_definitions"

text \<open>
  Running statements in order. The first error aborts the import; it is returned with
  the namespace reached so far.
\<close>

fun exec_module :: "stmt list \<Rightarrow> namespace \<Rightarrow> (error \<times> namespace) + namespace" where
  "exec_module [] ns = Inr ns"
| "exec_module (st # rest) ns =
     (case st ns of Inl e \<Rightarrow> Inl (e, ns) | Inr ns1 \<Rightarrow> exec_module rest ns1)"

text \<open>The namespace after the statements of \<open>module_head\<close>, latest binding first.\<close>

definition head_namespace :: namespace where
  "head_namespace =
     [(''useBlurredShadows'', VBool True),
      (''modules'', VDict []),
      (''morphicVersion'', VStr ''2021-December-06''),
      (''time'', VModule ''time''),
      (''tkinter'', VModule ''tkinter''),
      (''re'', VModule ''re''),
      (''math'', VModule ''math'')]"

text \<open>
  A namespace in which the three names read by the settings are bound already, as if
  their definitions had run first.
\<close>

definition late_names_bound :: namespace where
  "late_names_bound =
     [(''Point'', VClass ''Point''), (''Color'', VClass ''Color''),
      (''getMinimumFontHeight'', VFunction ''getMinimumFontHeight'')]"

section \<open>Colors\<close>

subsection \<open>Python floats\<close>

text \<open>
  \<^verbatim>\<open>Color.rgba_hsva\<close> compares quotients for equality, so its floats are modelled with
  their rounding: a Python float is an IEEE 754 double, that is a finite value, an
  infinity or a NaN, and every operation returns the double nearest to the exact result,
  ties going to the even mantissa. The two zeros are not told apart (they are equal in
  every comparison, and dividing by either raises). A value \<open>Fin x\<close> passed in from
  outside stands for a double \<open>x\<close>.
\<close>

text \<open>
  The binary exponent of a positive real (the floor of its logarithm to base 2), found
  by halving or doubling.
\<close>

function ilog2_up :: "real \<Rightarrow> int" where
  "ilog2_up x = (if 2 \<le> x then ilog2_up (x / 2) + 1 else 0)"
  by pat_completeness auto
termination
proof (relation "measure (\<lambda>x. nat \<lfloor>x\<rfloor>)")
  show "wf (measure (\<lambda>x::real. nat \<lfloor>x\<rfloor>))" by simp
next
  fix x :: real
  assume "2 \<le> x"
  then have "x / 2 \<le> x - 1" by simp
  then have "\<lfloor>x / 2\<rfloor> \<le> \<lfloor>x - 1\<rfloor>" by (rule floor_mono)
  then have "\<lfloor>x / 2\<rfloor> < \<lfloor>x\<rfloor>" by simp
  moreover have "0 < \<lfloor>x\<rfloor>" using \<open>2 \<le> x\<close> by simp
  ultimately show "(x / 2, x) \<in> measure (\<lambda>x. nat \<lfloor>x\<rfloor>)" by simp
qed

declare ilog2_up.simps [simp del]

function ilog2_down :: "real \<Rightarrow> int" where
  "ilog2_down x = (if 0 < x \<and> x < 1 then ilog2_down (2 * x) - 1 else 0)"
  by pat_completeness auto
termination
proof (relation "measure (\<lambda>x. nat \<lceil>1 / x\<rceil>)")
  show "wf (measure (\<lambda>x::real. nat \<lceil>1 / x\<rceil>))" by simp
next
  fix x :: real
  assume a: "0 < x \<and> x < 1"
  then have y: "1 < 1 / x" by simp
  then have c2: "2 \<le> \<lceil>1 / x\<rceil>" by linarith
  have "1 / x \<le> of_int \<lceil>1 / x\<rceil>" by (rule le_of_int_ceiling)
  then have "1 / (2 * x) \<le> of_int \<lceil>1 / x\<rceil> / 2" by simp
  also have "\<dots> \<le> of_int (\<lceil>1 / x\<rceil> - 1)" using c2 by simp
  finally have "\<lceil>1 / (2 * x)\<rceil> \<le> \<lceil>1 / x\<rceil> - 1" by (rule ceiling_le)
  with c2 a show "(2 * x, x) \<in> measure (\<lambda>x. nat \<lceil>1 / x\<rceil>)" by simp
qed

declare ilog2_down.simps [simp del]

definition ilog2 :: "real \<Rightarrow> int" where
  "ilog2 x = (if 1 \<le> x then ilog2_up x else ilog2_down x)"

text \<open>
  Rounding to the nearest double: the doubles around \<open>x\<close> are the multiples of
  \<open>2 powi (e - 52)\<close> for the exponent \<open>e\<close> of \<open>x\<close>, and of \<open>2 powi (- 1074)\<close>
  in the subnormal range. A rounded result of magnitude \<open>2 ^ 1024\<close> or more is an
  infinity.
\<close>

datatype pyfloat = Fin real | PInf | NInf | NaN

definition round_double :: "real \<Rightarrow> real" where
  "round_double x =
     (if x = 0 then 0
      else let e = max (ilog2 \<bar>x\<bar>) (- 1022);
               u = 2 powi (e - 52)
           in of_int (round_half_even (x / u)) * u)"

definition to_float :: "real \<Rightarrow> pyfloat" where
  "to_float x =
     (let y = round_double x
      in if 2 ^ 1024 \<le> y then PInf else if y \<le> - (2 ^ 1024) then NInf else Fin y)"

text \<open>\<^verbatim>\<open>a / b\<close> on two ints: the exact quotient, rounded once.\<close>

definition int_truediv :: "int \<Rightarrow> int \<Rightarrow> error + pyfloat" where
  "int_truediv a b =
     (if b = 0 then Inl ZeroDivisionError
      else case to_float (of_int a / of_int b) of
             Fin y \<Rightarrow> Inr (Fin y)
           | _ \<Rightarrow> Inl OverflowError)"

text \<open>Negation, addition, subtraction and division of floats.\<close>

fun fl_neg :: "pyfloat \<Rightarrow> pyfloat" where
  "fl_neg (Fin x) = Fin (- x)"
| "fl_neg PInf = NInf"
| "fl_neg NInf = PInf"
| "fl_neg NaN = NaN"

fun fl_add :: "pyfloat \<Rightarrow> pyfloat \<Rightarrow> pyfloat" where
  "fl_add (Fin x) (Fin y) = to_float (x + y)"
| "fl_add NaN b = NaN"
| "fl_add a NaN = NaN"
| "fl_add PInf NInf = NaN"
| "fl_add NInf PInf = NaN"
| "fl_add PInf b = PInf"
| "fl_add a PInf = PInf"
| "fl_add NInf b = NInf"
| "fl_add a NInf = NInf"

definition fl_sub :: "pyfloat \<Rightarrow> pyfloat \<Rightarrow> pyfloat" where
  "fl_sub a b = fl_add a (fl_neg b)"

fun fl_div :: "pyfloat \<Rightarrow> pyfloat \<Rightarrow> error + pyfloat" where
  "fl_div a (Fin y) =
     (if y = 0 then Inl ZeroDivisionError
      else case a of
             Fin x \<Rightarrow> Inr (to_float (x / y))
           | PInf \<Rightarrow> Inr (if 0 < y then PInf else NInf)
           | NInf \<Rightarrow> Inr (if 0 < y then NInf else PInf)
           | NaN \<Rightarrow> Inr NaN)"
| "fl_div (Fin x) PInf = Inr (Fin 0)"
| "fl_div (Fin x) NInf = Inr (Fin 0)"
| "fl_div a b = Inr NaN"

text \<open>\<^verbatim>\<open>==\<close> and \<^verbatim>\<open><\<close> on floats; every comparison with a NaN is false.\<close>

fun fl_eq :: "pyfloat \<Rightarrow> pyfloat \<Rightarrow> bool" where
  "fl_eq (Fin x) (Fin y) = (x = y)"
| "fl_eq PInf PInf = True"
| "fl_eq NInf NInf = True"
| "fl_eq a b = False"

fun fl_less :: "pyfloat \<Rightarrow> pyfloat \<Rightarrow> bool" where
  "fl_less (Fin x) (Fin y) = (x < y)"
| "fl_less (Fin x) PInf = True"
| "fl_less NInf (Fin y) = True"
| "fl_less NInf PInf = True"
| "fl_less a b = False"

text \<open>
  The builtins \<^verbatim>\<open>max(a, b, c)\<close> and \<^verbatim>\<open>min(a, b, c)\<close>: they keep the first argument
  until a later one is greater (smaller).
\<close>

definition fl_max3 :: "pyfloat \<Rightarrow> pyfloat \<Rightarrow> pyfloat \<Rightarrow> pyfloat" where
  "fl_max3 a b c =
     (let m = a;
          m = (if fl_less m b then b else m);
          m = (if fl_less m c then c else m)
      in m)"

definition fl_min3 :: "pyfloat \<Rightarrow> pyfloat \<Rightarrow> pyfloat \<Rightarrow> pyfloat" where
  "fl_min3 a b c =
     (let m = a;
          m = (if fl_less b m then b else m);
          m = (if fl_less c m then c else m)
      in m)"

subsection \<open>The conversion to hue, saturation and value\<close>

text \<open>
  An argument of \<^verbatim>\<open>rgba_hsva\<close> is an int (the channels of a Color are ints) or a
  float. \<^verbatim>\<open>x / 255\<close> is the correctly rounded quotient; for an int too large for a
  double it raises \<^verbatim>\<open>OverflowError\<close>.
\<close>

datatype number = IntNum int | FloatNum pyfloat

definition over_255 :: "number \<Rightarrow> error + pyfloat" where
  "over_255 x = (case x of IntNum i \<Rightarrow> int_truediv i 255 | FloatNum f \<Rightarrow> fl_div f (Fin 255))"

text \<open>
  The first test of the hue chain is written \<^verbatim>\<open>max == rr\<close> in the source: it compares
  the builtin function \<^verbatim>\<open>max\<close> (not the local \<^verbatim>\<open>max_\<close>, written \<open>max'\<close> here) with a
  number, and a function object is never equal to a number. The alpha value is returned
  as it was passed; the ints \<^verbatim>\<open>0\<close> that the source assigns to \<open>h\<close> and \<open>s\<close> are
  written \<open>Fin 0\<close>.
\<close>

definition builtin_max_eq :: "pyfloat \<Rightarrow> bool" where
  "builtin_max_eq rr = False"

definition never_raised :: string where
  "never_raised = ''This error should never be raised. Please report this as a bug.''"

definition rgba_hsva ::
  "number \<Rightarrow> number \<Rightarrow> number \<Rightarrow> 'a \<Rightarrow> error + (pyfloat \<times> pyfloat \<times> pyfloat \<times> 'a)" where
  "rgba_hsva r g b a =
     and_then (over_255 r) (\<lambda>rr.
     and_then (over_255 g) (\<lambda>gg.
     and_then (over_255 b) (\<lambda>bb.
       let max' = fl_max3 rr gg bb;
           min' = fl_min3 rr gg bb;
           v = max';
           d = fl_sub max' min'
       in and_then (if fl_eq max' (Fin 0) then Inr (Fin 0) else fl_div d max') (\<lambda>s.
          if fl_eq max' min' then Inr (Fin 0, s, v, a)
          else
            and_then
              (if builtin_max_eq rr
                 then and_then (fl_div (fl_sub gg bb) d)
                        (\<lambda>q. Inr (fl_add q (if fl_less gg bb then Fin 6 else Fin 0)))
               else if fl_eq max' gg
                 then and_then (fl_div (fl_sub bb rr) d) (\<lambda>q. Inr (fl_add q (Fin 2)))
               else if fl_eq max' bb
                 then and_then (fl_div (fl_sub rr gg) d) (\<lambda>q. Inr (fl_add q (Fin 4)))
               else Inl (Exception never_raised))
              (\<lambda>h. and_then (fl_div h (Fin 6)) (\<lambda>h6. Inr (h6, s, v, a)))))))"

section \<open>The node tree\<close>

text \<open>
  \<^verbatim>\<open>morphic.py\<close> holds no Node or Morph class, so the tree operations are modelled from
  the specification. Nodes are identified by numbers; a forest records each node's
  parent reference and each node's ordered child sequence.
\<close>

type_synonym node = nat

text \<open>
  Modelled from the spec: the Node data model, which is missing from the source. "Parent
  reference (non-owning, back-reference only), ordered sequence of owned children
  (rightmost = topmost in z-order)".
\<close>

record forest =
  parent :: "node \<Rightarrow> node option"
  children :: "node \<Rightarrow> node list"

text \<open>
  Modelled from the spec: a collection of nodes before any operation, each without a
  parent and without children.
\<close>

definition no_links :: forest where
  "no_links = \<lparr>parent = (\<lambda>n. None), children = (\<lambda>n. [])\<rparr>"

text \<open>
  Modelled from the spec: the explicit check "child is an ancestor of parent", which
  also covers "attaching a node as its own descendant". It follows the parent references
  upwards from \<open>n\<close> and looks for \<open>a\<close>; on a cyclic structure it would not return.
\<close>

partial_function (option) is_ancestor :: "forest \<Rightarrow> node \<Rightarrow> node \<Rightarrow> bool option" where
  "is_ancestor t a n =
     (if n = a then Some True
      else case parent t n of None \<Rightarrow> Some False | Some p \<Rightarrow> is_ancestor t a p)"

text \<open>
  Modelled from the spec: \<^verbatim>\<open>remove(node)\<close> "detaches node from its parent's child
  sequence"; damage marking and weak references are left out.
\<close>

definition remove :: "forest \<Rightarrow> node \<Rightarrow> forest" where
  "remove t n =
     (case parent t n of
        None \<Rightarrow> t
      | Some p \<Rightarrow> t\<lparr>parent := (parent t)(n := None),
                     children := (children t)(p := remove1 n (children t p))\<rparr>)"

text \<open>
  Modelled from the spec: the attachment step of \<^verbatim>\<open>addChild\<close>, "appends to parent's
  child sequence (front if atBack is false, i.e. topmost)"; the topmost child is the
  rightmost one.
\<close>

definition attach :: "forest \<Rightarrow> node \<Rightarrow> node \<Rightarrow> bool \<Rightarrow> forest" where
  "attach t p c atBack =
     t\<lparr>parent := (parent t)(c \<mapsto> p),
       children := (children t)(p := (if atBack then c # children t p else children t p @ [c]))\<rparr>"

text \<open>
  Modelled from the spec: \<^verbatim>\<open>addChild(parent, child, atBack)\<close> "detaches child from any
  existing parent first, appends to parent's child sequence", and "fails silently if
  child is an ancestor of parent", which is "checked explicitly before attachment" and
  "rejected before mutation".
\<close>

definition addChild :: "forest \<Rightarrow> node \<Rightarrow> node \<Rightarrow> bool \<Rightarrow> forest option" where
  "addChild t p c atBack =
     (case is_ancestor t c p of
        None \<Rightarrow> None
      | Some True \<Rightarrow> Some t
      | Some False \<Rightarrow> Some (attach (remove t c) p c atBack))"

text \<open>
  Modelled from the spec: a sequence of \<^verbatim>\<open>addChild\<close> and \<^verbatim>\<open>remove\<close> operations,
  applied in order.
\<close>

datatype tree_op = AddChild node node bool | Remove node

fun apply_ops :: "tree_op list \<Rightarrow> forest \<Rightarrow> forest option" where
  "apply_ops [] t = Some t"
| "apply_ops (AddChild p c atBack # ops) t =
     (case addChild t p c atBack of None \<Rightarrow> None | Some t1 \<Rightarrow> apply_ops ops t1)"
| "apply_ops (Remove n # ops) t = apply_ops ops (remove t n)"

text \<open>
  Modelled from the spec: the invariant of the Node data model. The edges lead from a
  child to its parent; the child sequences list exactly the nodes whose parent reference
  points to the owner, each once.
\<close>

definition parent_rel :: "forest \<Rightarrow> (node \<times> node) set" where
  "parent_rel t = {(c, p). parent t c = Some p}"

definition tree_inv :: "forest \<Rightarrow> bool" where
  "tree_inv t \<longleftrightarrow>
     finite (dom (parent t)) \<and> acyclic (parent_rel t)
     \<and> (\<forall>p c. c \<in> set (children t p) \<longleftrightarrow> parent t c = Some p)
     \<and> (\<forall>p. distinct (children t p))"

section \<open>Properties of animations\<close>

lemma and_then_Inr [simp]: "and_then (Inr v) f = f v"
  by (simp add: and_then_def)

lemma and_then_Inl [simp]: "and_then (Inl e) f = Inl e"
  by (simp add: and_then_def)

lemma map_of_easings_linear: "map_of easings ''linear'' = Some linear"
  by (simp add: easings_def)

lemma select_easing_unknown:
  "map_of easings name = None \<Longrightarrow> select_easing (EasingName name) = Inl (AttributeError ''sinusoidal'')"
  by (simp add: select_easing_def dict_getattr_def)

lemma select_easing_known:
  "map_of easings name = Some f \<Longrightarrow> select_easing (EasingName name) = Inr f"
  by (simp add: select_easing_def)

text \<open>
  C3: the claim is that an unknown easing name, or no easing at all, selects the sinusoidal
  easing. The constructor reads the default as \<^verbatim>\<open>self.easings.sinusoidal\<close>, an attribute
  of a dict, where the branch beside it subscripts the dict: with the unknown name
  \<open>''bounce''\<close> and with no easing the constructor raises \<^verbatim>\<open>AttributeError\<close>, whatever
  the other arguments are.
\<close>

theorem Animation_init_default_easing_raises:
  "Animation_init st gt dl du (EasingName ''bounce'') oc now s = Inl (AttributeError ''sinusoidal'')
   \<and> Animation_init st gt dl du EasingNone oc now s = Inl (AttributeError ''sinusoidal'')"
  by (simp add: Animation_init_def select_easing_def dict_getattr_def easings_def)

text \<open>
  C4: the claim is that every predefined easing evaluates without raising on the whole of
  \<open>[0, 1]\<close>, with no division by zero at the end points. The three elastic easings
  divide by \<open>100 * t\<close>, \<open>25 * t\<close> and \<open>25 * (t - 1)\<close>: \<open>elastic\<close> and
  \<open>elastic_in\<close> raise \<^verbatim>\<open>ZeroDivisionError\<close> at \<open>t = 0\<close> and \<open>elastic_out\<close> at
  \<open>t = 1\<close>.
\<close>

theorem elastic_easings_raise:
  "elastic 0 = Inl ZeroDivisionError
   \<and> elastic_in 0 = Inl ZeroDivisionError
   \<and> elastic_out 1 = Inl ZeroDivisionError"
  by (simp add: elastic_def elastic_in_def elastic_out_def py_truediv_def)

text \<open>The other nine easings never raise, and the elastic ones raise at their pole only.\<close>

lemma easings_total_without_division:
  "\<exists>y. linear t = Inr y" "\<exists>y. sinusoidal t = Inr y" "\<exists>y. quadratic t = Inr y"
  "\<exists>y. cubic t = Inr y" "\<exists>y. sine_in t = Inr y" "\<exists>y. quad_in t = Inr y"
  "\<exists>y. cubic_in t = Inr y" "\<exists>y. sine_out t = Inr y" "\<exists>y. quad_out t = Inr y"
  by (simp_all add: linear_def sinusoidal_def quadratic_def cubic_def sine_in_def
        quad_in_def cubic_in_def sine_out_def quad_out_def)

lemma elastic_raises_iff: "(\<exists>y. elastic t = Inr y) \<longleftrightarrow> t \<noteq> 0"
  by (simp add: elastic_def py_truediv_def)

lemma elastic_in_raises_iff: "(\<exists>y. elastic_in t = Inr y) \<longleftrightarrow> t \<noteq> 0"
  by (simp add: elastic_in_def py_truediv_def)

lemma elastic_out_raises_iff: "(\<exists>y. elastic_out t = Inr y) \<longleftrightarrow> t \<noteq> 1"
  by (simp add: elastic_out_def py_truediv_def)

text \<open>
  C6: every animation is started upon construction. Whenever the constructor returns an
  animation, the animation is active, its destination is the value read by the getter at
  construction time plus the delta, and its end time is the clock reading of the
  construction. The constructor returns exactly when the easing argument is a predefined
  name or a function.
\<close>

theorem Animation_init_started:
  "(\<forall>a. Animation_init st gt dl du e oc now s = Inr a \<longrightarrow>
        isActive a \<and> destination a = Some (gt s + dl) \<and> endTime a = Some now)
   \<and> ((\<exists>a. Animation_init st gt dl du e oc now s = Inr a) \<longleftrightarrow>
        (case e of EasingName name \<Rightarrow> name \<in> fst ` set easings
                 | EasingFunction f \<Rightarrow> True
                 | EasingNone \<Rightarrow> False))"
proof -
  have sel: "(\<exists>f. select_easing e = Inr f) \<longleftrightarrow>
        (case e of EasingName name \<Rightarrow> name \<in> fst ` set easings
                 | EasingFunction f \<Rightarrow> True
                 | EasingNone \<Rightarrow> False)"
  proof (cases e)
    case (EasingName name)
    show ?thesis
    proof (cases "map_of easings name")
      case None
      then have "name \<notin> fst ` set easings"
        by (simp add: map_of_eq_None_iff)
      with EasingName None show ?thesis
        by (simp add: select_easing_def dict_getattr_def)
    next
      case (Some f)
      then have "name \<in> fst ` set easings"
        by (metis map_of_eq_None_iff option.distinct(1))
      with EasingName Some show ?thesis
        by (simp add: select_easing_def)
    qed
  qed (simp_all add: select_easing_def dict_getattr_def)
  have ret: "(\<exists>a. Animation_init st gt dl du e oc now s = Inr a) \<longleftrightarrow> (\<exists>f. select_easing e = Inr f)"
    by (cases "select_easing e") (simp_all add: Animation_init_def)
  have post: "isActive a \<and> destination a = Some (gt s + dl) \<and> endTime a = Some now"
    if "Animation_init st gt dl du e oc now s = Inr a" for a
    using that by (cases "select_easing e") (auto simp: Animation_init_def start_def)
  from sel ret post show ?thesis by blast
qed

theorem Animation_init_started_witness:
  "\<exists>a. Animation_init (\<lambda>v s. v) (\<lambda>s. s) 100 1000 (EasingName ''linear'') None 5 (7::real) = Inr a
       \<and> isActive a \<and> destination a = Some 107 \<and> endTime a = Some 5"
proof -
  have "\<exists>a. Animation_init (\<lambda>v s. v) (\<lambda>s. s) 100 1000 (EasingName ''linear'') None 5 (7::real) = Inr a"
    using Animation_init_started [of "\<lambda>v s. v" "\<lambda>s. s" 100 1000 "EasingName ''linear''" None 5 7]
    by (simp add: easings_def)
  then obtain a where a: "Animation_init (\<lambda>v s. v) (\<lambda>s. s) 100 1000 (EasingName ''linear'') None 5 (7::real) = Inr a" ..
  with Animation_init_started [of "\<lambda>v s. v" "\<lambda>s. s" 100 1000 "EasingName ''linear''" None 5 7]
  have "isActive a \<and> destination a = Some 107 \<and> endTime a = Some 5" by simp
  with a show ?thesis by blast
qed

text \<open>The two branches of \<open>step\<close> on a started, active animation.\<close>

lemma step_after_endTime:
  "isActive a \<Longrightarrow> endTime a = Some e \<Longrightarrow> destination a = Some d \<Longrightarrow> e < now \<Longrightarrow>
   step a now s = Inr (a\<lparr>isActive := False\<rparr>,
                       (case onComplete a of None \<Rightarrow> setter a d s | Some f \<Rightarrow> f (setter a d s)))"
  by (simp add: step_def Let_def)

lemma step_until_endTime:
  "isActive a \<Longrightarrow> endTime a = Some e \<Longrightarrow> destination a = Some d \<Longrightarrow> now \<le> e \<Longrightarrow>
   step a now s =
     and_then (py_truediv (real_of_int (e - now)) (duration a)) (\<lambda>frac.
     and_then (easing a frac) (\<lambda>y. Inr (a, setter a (d - delta a * y) s)))"
  by (simp add: step_def)

lemma step_inactive: "\<not> isActive a \<Longrightarrow> step a now s = Inr (a, s)"
  by (simp add: step_def)

text \<open>
  What \<open>step\<close> does right after \<open>start\<close>: at any later clock reading it completes,
  whatever the duration; at the clock reading of the start a linear animation of nonzero
  duration writes the destination, and one of duration zero raises.
\<close>

lemma started_step_later:
  "t0 < now \<Longrightarrow>
   step (start a t0 s) now s1 =
     Inr ((start a t0 s)\<lparr>isActive := False\<rparr>,
          (case onComplete a of None \<Rightarrow> setter a (getter a s + delta a) s1
           | Some f \<Rightarrow> f (setter a (getter a s + delta a) s1)))"
  by (simp add: step_def start_def Let_def)

lemma started_step_same_tick:
  "duration a \<noteq> 0 \<Longrightarrow> easing a = linear \<Longrightarrow>
   step (start a t0 s) t0 s1 = Inr (start a t0 s, setter a (getter a s + delta a) s1)"
  by (simp add: step_def start_def py_truediv_def linear_def)

lemma started_step_zero_duration:
  "duration a = 0 \<Longrightarrow> step (start a t0 s) t0 s1 = Inl ZeroDivisionError"
  by (simp add: step_def start_def py_truediv_def)

text \<open>
  C1: the claim is that a linear animation of duration \<open>D\<close> approaches \<open>start + \<Delta>\<close>
  strictly before \<open>D\<close> milliseconds have elapsed and reaches it at or after \<open>D\<close>.
  \<open>start\<close> records the clock reading itself as the end time, without the duration. For
  duration 1000, delta 100, a target that holds 0 and counts the completions, constructed
  at clock 0: the step at clock 0 already writes 100, the step at clock 1 writes 100,
  deactivates the animation and completes it, and later steps change nothing.
\<close>

theorem linear_animation_arrives_at_first_step:
  "\<exists>a. Animation_init (\<lambda>v (x, n). (v, n)) fst 100 1000 (EasingName ''linear'')
            (Some (\<lambda>(x, n). (x, Suc n))) 0 (0, 0::nat) = Inr a
       \<and> steps a [0] (0, 0) = Inr (a, (100, 0))
       \<and> steps a [0, 1] (0, 0) = Inr (a\<lparr>isActive := False\<rparr>, (100, 1))
       \<and> steps a [0, 1, 500, 1000, 1001] (0, 0) = Inr (a\<lparr>isActive := False\<rparr>, (100, 1))"
  by (simp add: Animation_init_def select_easing_def easings_def start_def step_def
        py_truediv_def linear_def)

text \<open>
  C2: the claim is that \<open>step\<close> sets the destination and deactivates the animation when
  the elapsed time exceeds the duration, and interpolates otherwise. An animation of
  duration 1000 constructed at clock 0 is active with end time 0; its step at clock 1,
  with 1 of 1000 milliseconds elapsed, sets the destination 100 and deactivates it.
\<close>

theorem step_completes_before_duration:
  "\<exists>a. Animation_init (\<lambda>v s. v) (\<lambda>s. s) 100 1000 (EasingName ''linear'') None 0 (0::real) = Inr a
       \<and> isActive a \<and> duration a = 1000 \<and> endTime a = Some 0 \<and> destination a = Some 100
       \<and> step a 1 0 = Inr (a\<lparr>isActive := False\<rparr>, 100)"
  by (simp add: Animation_init_def select_easing_def easings_def start_def step_def)

section \<open>Properties of colors\<close>

lemma two_powi_Suc: "(2::real) powi (k + 1) = 2 * 2 powi k"
  by (simp add: power_int_add_1')

lemma two_powi_pred: "(2::real) powi (k - 1) = 2 powi k / 2"
  using two_powi_Suc [of "k - 1"] by simp

lemma ilog2_up_bounds:
  "1 \<le> x \<Longrightarrow> 2 powi (ilog2_up x) \<le> x \<and> x < 2 powi (ilog2_up x + 1)"
proof (induction x rule: ilog2_up.induct)
  case (1 x)
  show ?case
  proof (cases "2 \<le> x")
    case True
    then have "1 \<le> x / 2" by simp
    with "1.IH" True have ih: "2 powi (ilog2_up (x / 2)) \<le> x / 2"
      "x / 2 < 2 powi (ilog2_up (x / 2) + 1)" by blast+
    have e: "ilog2_up x = ilog2_up (x / 2) + 1" using True by (subst ilog2_up.simps) simp
    from ih have "2 * 2 powi (ilog2_up (x / 2)) \<le> x"
      and "x < 2 * 2 powi (ilog2_up (x / 2) + 1)" by linarith+
    then show ?thesis unfolding e by (simp only: two_powi_Suc)
  next
    case False
    then have e: "ilog2_up x = 0" by (subst ilog2_up.simps) simp
    from False "1.prems" show ?thesis unfolding e by simp
  qed
qed

lemma ilog2_down_bounds:
  "0 < x \<Longrightarrow> x < 1 \<Longrightarrow> 2 powi (ilog2_down x) \<le> x \<and> x < 2 powi (ilog2_down x + 1)"
proof (induction x rule: ilog2_down.induct)
  case (1 x)
  have e: "ilog2_down x = ilog2_down (2 * x) - 1"
    using "1.prems" by (subst ilog2_down.simps) simp
  show ?case
  proof (cases "2 * x < 1")
    case True
    with "1.IH" "1.prems" have ih: "2 powi (ilog2_down (2 * x)) \<le> 2 * x"
      "2 * x < 2 powi (ilog2_down (2 * x) + 1)" by simp_all
    from ih(1) have a: "2 powi (ilog2_down (2 * x)) / 2 \<le> x" by linarith
    from ih(2) have b: "x < 2 powi (ilog2_down (2 * x))"
      by (simp only: two_powi_Suc)
    from a b show ?thesis unfolding e by (simp add: two_powi_pred)
  next
    case False
    then have z: "ilog2_down (2 * x) = 0" by (subst ilog2_down.simps) simp
    from False "1.prems" show ?thesis unfolding e z by (simp add: power_int_minus)
  qed
qed

lemma ilog2_bounds: "0 < x \<Longrightarrow> 2 powi (ilog2 x) \<le> x \<and> x < 2 powi (ilog2 x + 1)"
  using ilog2_up_bounds [of x] ilog2_down_bounds [of x] by (simp add: ilog2_def)

lemma ilog2_unique:
  assumes "0 < x" "2 powi e \<le> x" "x < 2 powi (e + 1)"
  shows "ilog2 x = e"
proof -
  from ilog2_bounds [OF assms(1)] have b: "2 powi (ilog2 x) \<le> x" "x < 2 powi (ilog2 x + 1)"
    by simp_all
  have 1: "\<not> e + 1 \<le> ilog2 x"
  proof
    assume "e + 1 \<le> ilog2 x"
    then have "(2::real) powi (e + 1) \<le> 2 powi (ilog2 x)" by (rule power_int_increasing) simp
    with b(1) assms(3) show False by simp
  qed
  have 2: "\<not> ilog2 x + 1 \<le> e"
  proof
    assume "ilog2 x + 1 \<le> e"
    then have "(2::real) powi (ilog2 x + 1) \<le> 2 powi e" by (rule power_int_increasing) simp
    with b(2) assms(2) show False by simp
  qed
  from 1 2 show ?thesis by simp
qed

lemma round_half_even_error: "\<bar>of_int (round_half_even y) - y\<bar> \<le> 1 / 2"
proof -
  have "of_int \<lfloor>y\<rfloor> \<le> y" "y < of_int \<lfloor>y\<rfloor> + 1" by linarith+
  then show ?thesis
    unfolding round_half_even_def Let_def by (auto split: if_splits)
qed

lemma round_double_unit:
  assumes "x \<noteq> 0"
  shows "\<bar>round_double x - x\<bar> \<le> 2 powi (max (ilog2 \<bar>x\<bar>) (- 1022) - 52) / 2"
proof -
  define u :: real where "u = 2 powi (max (ilog2 \<bar>x\<bar>) (- 1022) - 52)"
  have u: "0 < u" by (simp add: u_def)
  have rd: "round_double x = of_int (round_half_even (x / u)) * u"
    using assms by (simp add: round_double_def Let_def u_def)
  have "round_double x - x = (of_int (round_half_even (x / u)) - x / u) * u"
    using u by (simp add: rd algebra_simps)
  then have "\<bar>round_double x - x\<bar> = \<bar>of_int (round_half_even (x / u)) - x / u\<bar> * u"
    using u by (simp add: abs_mult)
  also have "\<dots> \<le> 1 / 2 * u"
    using u round_half_even_error [of "x / u"] by (intro mult_right_mono) simp_all
  finally show ?thesis by (simp add: u_def)
qed

lemma round_double_relative:
  assumes "2 powi (- 1022) \<le> \<bar>x\<bar>"
  shows "\<bar>round_double x - x\<bar> \<le> \<bar>x\<bar> / 2 ^ 53"
proof -
  have pos: "0 < \<bar>x\<bar>"
  proof -
    have "(0::real) < 2 powi (- 1022)" by simp
    with assms show ?thesis by linarith
  qed
  then have nz: "x \<noteq> 0" by simp
  from ilog2_bounds [OF pos] have b: "2 powi (ilog2 \<bar>x\<bar>) \<le> \<bar>x\<bar>"
    "\<bar>x\<bar> < 2 powi (ilog2 \<bar>x\<bar> + 1)" by simp_all
  have "\<not> ilog2 \<bar>x\<bar> + 1 \<le> - 1022"
  proof
    assume "ilog2 \<bar>x\<bar> + 1 \<le> - 1022"
    then have "(2::real) powi (ilog2 \<bar>x\<bar> + 1) \<le> 2 powi (- 1022)"
      by (rule power_int_increasing) simp
    with b(2) assms show False by linarith
  qed
  then have m: "max (ilog2 \<bar>x\<bar>) (- 1022) = ilog2 \<bar>x\<bar>" by simp
  have "(2::real) powi (ilog2 \<bar>x\<bar> - 52) = 2 powi (ilog2 \<bar>x\<bar>) * 2 powi (- 52)"
    using power_int_add [of "2::real" "ilog2 \<bar>x\<bar>" "- 52"] by simp
  also have "\<dots> \<le> \<bar>x\<bar> * 2 powi (- 52)"
    using b(1) by (intro mult_right_mono) simp_all
  finally have "(2::real) powi (ilog2 \<bar>x\<bar> - 52) / 2 \<le> \<bar>x\<bar> * 2 powi (- 52) / 2"
    by simp
  also have "\<dots> = \<bar>x\<bar> / 2 ^ 53"
    by (simp add: power_int_minus field_simps)
  finally show ?thesis
    using round_double_unit [OF nz] unfolding m by linarith
qed

lemma round_double_eval:
  assumes "2 powi e \<le> \<bar>x\<bar>" "\<bar>x\<bar> < 2 powi (e + 1)" "- 1022 \<le> e"
  shows "round_double x = of_int (round_half_even (x / 2 powi (e - 52))) * 2 powi (e - 52)"
proof -
  have pos: "0 < \<bar>x\<bar>"
  proof -
    have "(0::real) < 2 powi e" by simp
    with assms(1) show ?thesis by linarith
  qed
  then have "ilog2 \<bar>x\<bar> = e" using assms(1,2) by (rule ilog2_unique)
  with pos assms(3) show ?thesis
    by (simp add: round_double_def Let_def)
qed


lemma channel_error:
  fixes c :: int
  shows "\<bar>round_double (of_int c / 255) - of_int c / 255\<bar> \<le> \<bar>of_int c / 255\<bar> / 2 ^ 53"
proof (cases "c = 0")
  case True
  then show ?thesis by (simp add: round_double_def)
next
  case False
  then have "1 \<le> \<bar>c\<bar>" by simp
  then have "1 \<le> \<bar>real_of_int c\<bar>" by (metis of_int_1_le_iff of_int_abs)
  then have "1 / 255 \<le> \<bar>real_of_int c / 255\<bar>" by simp
  moreover have "(2::real) powi (- 1022) \<le> 1 / 255"
    by (simp add: power_int_minus field_simps)
  ultimately have "2 powi (- 1022) \<le> \<bar>real_of_int c / 255\<bar>" by linarith
  then show ?thesis by (rule round_double_relative)
qed

lemma channel_quotient:
  fixes c :: int
  assumes "\<bar>c\<bar> < 2 ^ 52"
  shows "int_truediv c 255 = Inr (Fin (round_double (of_int c / 255)))"
proof -
  from assms have "\<bar>real_of_int c\<bar> < 2 ^ 52"
    by (metis of_int_abs of_int_less_numeral_power_cancel_iff)
  then have q: "\<bar>real_of_int c / 255\<bar> < 2 ^ 52" by simp
  have "\<bar>real_of_int c / 255\<bar> / 2 ^ 53 \<le> \<bar>real_of_int c / 255\<bar>"
    by (simp add: field_simps)
  with channel_error [of c] q have "\<bar>round_double (of_int c / 255)\<bar> < 2 * 2 ^ 52"
    by linarith
  moreover have "(2::real) * 2 ^ 52 < 2 ^ 1024" by simp
  ultimately have "\<bar>round_double (of_int c / 255)\<bar> < 2 ^ 1024" by linarith
  then have "to_float (of_int c / 255) = Fin (round_double (of_int c / 255))"
    by (simp add: to_float_def Let_def abs_less_iff)
  then show ?thesis by (simp add: int_truediv_def)
qed

lemma channel_order:
  fixes r g :: int
  assumes "\<bar>r\<bar> < 2 ^ 52" "\<bar>g\<bar> < 2 ^ 52" "g < r"
  shows "round_double (of_int g / 255) < round_double (of_int r / 255)"
proof -
  from assms(1) have "\<bar>r\<bar> \<le> 2 ^ 52 - 1" by simp
  then have "real_of_int \<bar>r\<bar> \<le> real_of_int (2 ^ 52 - 1)" by (simp only: of_int_le_iff)
  then have r: "\<bar>real_of_int r\<bar> \<le> 2 ^ 52 - 1" by simp
  from assms(2) have "\<bar>g\<bar> \<le> 2 ^ 52 - 1" by simp
  then have "real_of_int \<bar>g\<bar> \<le> real_of_int (2 ^ 52 - 1)" by (simp only: of_int_le_iff)
  then have g: "\<bar>real_of_int g\<bar> \<le> 2 ^ 52 - 1" by simp
  from assms(3) have "g + 1 \<le> r" by simp
  then have "real_of_int (g + 1) \<le> real_of_int r" by (simp only: of_int_le_iff)
  then have d: "real_of_int g + 1 \<le> real_of_int r" by simp
  have er: "\<bar>round_double (of_int r / 255) - of_int r / 255\<bar> \<le> (2 ^ 52 - 1) / 255 / 2 ^ 53"
    using channel_error [of r] r by (simp add: field_simps)
  have eg: "\<bar>round_double (of_int g / 255) - of_int g / 255\<bar> \<le> (2 ^ 52 - 1) / 255 / 2 ^ 53"
    using channel_error [of g] g by (simp add: field_simps)
  have gap: "real_of_int g / 255 + 1 / 255 \<le> real_of_int r / 255" using d by simp
  have small: "2 * ((2 ^ 52 - 1) / 255 / 2 ^ 53) < (1::real) / 255" by simp
  from er eg gap small show ?thesis by linarith
qed

lemma fl_min3_below:
  assumes "xg < xr" "xb < xr"
  shows "\<exists>xm. fl_min3 (Fin xr) (Fin xg) (Fin xb) = Fin xm \<and> xm < xr"
  using assms by (simp add: fl_min3_def Let_def)

lemma fl_max3_first:
  assumes "xg < xr" "xb < xr"
  shows "fl_max3 (Fin xr) (Fin xg) (Fin xb) = Fin xr"
  using assms by (simp add: fl_max3_def Let_def)

lemma fl_div_returns: "y \<noteq> 0 \<Longrightarrow> \<exists>v. fl_div a (Fin y) = Inr v"
  by (cases a) simp_all

lemma over_255_int: "over_255 (IntNum i) = int_truediv i 255"
  by (simp add: over_255_def)

lemma to_float_finite: "\<bar>round_double x\<bar> < 2 ^ 1024 \<Longrightarrow> to_float x = Fin (round_double x)"
  by (simp add: to_float_def Let_def abs_less_iff)

lemma round_double_quotient_above:
  "round_double (1152921504606846977 / 255) = 4521260802379792"
  using round_double_eval [of 52 "1152921504606846977 / 255"]
  by (simp add: round_half_even_def Let_def)

lemma round_double_quotient_below:
  "round_double (1152921504606846976 / 255) = 4521260802379792"
  using round_double_eval [of 52 "1152921504606846976 / 255"]
  by (simp add: round_half_even_def Let_def)

lemma round_double_quotient_value:
  "round_double 4521260802379792 = 4521260802379792"
  "round_double (- 4521260802379792) = - 4521260802379792"
  using round_double_eval [of 52 "4521260802379792"]
    round_double_eval [of 52 "- 4521260802379792"]
  by (simp_all add: round_half_even_def Let_def)

lemma round_double_one:
  "round_double 1 = 1" "round_double (- 1) = - 1"
  using round_double_eval [of 0 1] round_double_eval [of 0 "- 1"]
  by (simp_all add: round_half_even_def Let_def power_int_minus)

lemma round_double_sixth:
  "round_double (1 / 6) = 6004799503160661 / 36028797018963968"
  using round_double_eval [of "- 3" "1 / 6"]
  by (simp add: round_half_even_def Let_def power_int_minus)

lemma to_float_values:
  "to_float (1152921504606846977 / 255) = Fin 4521260802379792"
  "to_float (1152921504606846976 / 255) = Fin 4521260802379792"
  "to_float 0 = Fin 0"
  "to_float 4521260802379792 = Fin 4521260802379792"
  "to_float (- 4521260802379792) = Fin (- 4521260802379792)"
  "to_float 1 = Fin 1"
  "to_float (- 1) = Fin (- 1)"
  "to_float (1 / 6) = Fin (6004799503160661 / 36028797018963968)"
proof -
  show "to_float (1152921504606846977 / 255) = Fin 4521260802379792"
    using to_float_finite [of "1152921504606846977 / 255", unfolded round_double_quotient_above]
    by simp
  show "to_float (1152921504606846976 / 255) = Fin 4521260802379792"
    using to_float_finite [of "1152921504606846976 / 255", unfolded round_double_quotient_below]
    by simp
  show "to_float 0 = Fin 0"
    by (simp add: to_float_def round_double_def)
  show "to_float 4521260802379792 = Fin 4521260802379792"
    using to_float_finite [of "4521260802379792", unfolded round_double_quotient_value]
    by simp
  show "to_float (- 4521260802379792) = Fin (- 4521260802379792)"
    using to_float_finite [of "- 4521260802379792", unfolded round_double_quotient_value]
    by simp
  show "to_float 1 = Fin 1"
    using to_float_finite [of 1, unfolded round_double_one] by simp
  show "to_float (- 1) = Fin (- 1)"
    using to_float_finite [of "- 1", unfolded round_double_one] by simp
  show "to_float (1 / 6) = Fin (6004799503160661 / 36028797018963968)"
    using to_float_finite [of "1 / 6", unfolded round_double_sixth] by simp
qed

lemma int_truediv_large:
  "int_truediv 1152921504606846977 255 = Inr (Fin 4521260802379792)"
  "int_truediv 1152921504606846976 255 = Inr (Fin 4521260802379792)"
  "int_truediv 0 255 = Inr (Fin 0)"
proof -
  have a: "to_float (real_of_int 1152921504606846977 / real_of_int 255) = Fin 4521260802379792"
    using to_float_values(1) by simp
  have b: "to_float (real_of_int 1152921504606846976 / real_of_int 255) = Fin 4521260802379792"
    using to_float_values(2) by simp
  have c: "to_float (real_of_int 0 / real_of_int 255) = Fin 0"
    using to_float_values(3) by simp
  show "int_truediv 1152921504606846977 255 = Inr (Fin 4521260802379792)"
    unfolding int_truediv_def a by simp
  show "int_truediv 1152921504606846976 255 = Inr (Fin 4521260802379792)"
    unfolding int_truediv_def b by simp
  show "int_truediv 0 255 = Inr (Fin 0)"
    unfolding int_truediv_def c by simp
qed

text \<open>
  C9, as stated: for every color whose red channel is the strict maximum of the three
  channels, \<open>rgba_hsva\<close> raises. A Color holds any ints, and the quotients by 255 are
  doubles: for the channels \<open>2 ^ 60 + 1\<close>, \<open>2 ^ 60\<close> and \<open>0\<close> the red channel is the
  strict maximum, but the red and the green quotient round to the same double, so the
  test \<^verbatim>\<open>max_ == gg\<close> succeeds and a hue (the double nearest to one sixth) is returned.
\<close>

theorem rgba_hsva_large_red_max_returns:
  "(1152921504606846976::int) < 1152921504606846977 \<and> (0::int) < 1152921504606846977
   \<and> rgba_hsva (IntNum 1152921504606846977) (IntNum 1152921504606846976) (IntNum 0) (1::int)
       = Inr (Fin (6004799503160661 / 36028797018963968), Fin 1, Fin 4521260802379792, 1)"
  unfolding rgba_hsva_def over_255_int int_truediv_large and_then_Inr
  by (simp add: to_float_values fl_max3_def fl_min3_def fl_sub_def builtin_max_eq_def Let_def)

text \<open>
  C9, as amended: for every color whose channels are ints of magnitude below \<open>2 ^ 52\<close>
  (so for every color with channels from 0 to 255) and whose red channel is the strict
  maximum of the three channels, \<open>rgba_hsva\<close> raises its "This error should never be
  raised" exception instead of returning a hue.
\<close>

theorem rgba_hsva_red_max_raises:
  assumes "\<bar>r\<bar> < 2 ^ 52" and "\<bar>g\<bar> < 2 ^ 52" and "\<bar>b\<bar> < 2 ^ 52"
    and "g < r" and "b < r"
  shows "rgba_hsva (IntNum r) (IntNum g) (IntNum b) a = Inl (Exception never_raised)"
proof -
  define xr where "xr = round_double (of_int r / 255)"
  define xg where "xg = round_double (of_int g / 255)"
  define xb where "xb = round_double (of_int b / 255)"
  have rr: "int_truediv r 255 = Inr (Fin xr)"
    and gg: "int_truediv g 255 = Inr (Fin xg)"
    and bb: "int_truediv b 255 = Inr (Fin xb)"
    using assms(1-3) by (simp_all add: channel_quotient xr_def xg_def xb_def)
  have lg: "xg < xr" unfolding xg_def xr_def using assms(1,2,4) by (intro channel_order)
  have lb: "xb < xr" unfolding xb_def xr_def using assms(1,3,5) by (intro channel_order)
  have mx: "fl_max3 (Fin xr) (Fin xg) (Fin xb) = Fin xr"
    using lg lb by (rule fl_max3_first)
  from fl_min3_below [OF lg lb] obtain xm
    where mn: "fl_min3 (Fin xr) (Fin xg) (Fin xb) = Fin xm" and lm: "xm < xr" by blast
  obtain s where s: "(if fl_eq (Fin xr) (Fin 0) then Inr (Fin 0)
                      else fl_div (fl_sub (Fin xr) (Fin xm)) (Fin xr)) = Inr s"
    using fl_div_returns [of xr "fl_sub (Fin xr) (Fin xm)"] by (cases "xr = 0") auto
  show ?thesis
    unfolding rgba_hsva_def over_255_int rr gg bb and_then_Inr Let_def mx mn s
      builtin_max_eq_def
    using lg lb lm by simp
qed

theorem rgba_hsva_red_max_raises_witness:
  "\<bar>255::int\<bar> < 2 ^ 52 \<and> \<bar>0::int\<bar> < 2 ^ 52 \<and> (0::int) < 255
   \<and> rgba_hsva (IntNum 255) (IntNum 0) (IntNum 0) (1::int) = Inl (Exception never_raised)"
  using rgba_hsva_red_max_raises [of 255 0 0 "1::int"] by simp

section \<open>Properties of points\<close>

lemma int_point_Point_init: "int_point (Point_init x y)"
  by (simp add: int_point_def Point_init_def)

lemma int_point_both: "both mx my = Inr q \<Longrightarrow> int_point q"
  by (cases mx; cases my) (auto simp: both_def and_then_def int_point_Point_init)

lemma mirror_raises: "mirror self axis = Inl (TypeError ''bad operand type for unary -: tuple'')"
  by (simp add: mirror_def tuple_neg_def Let_def split: prod.splits)

lemma int_point_perform:
  assumes "int_point p" and "perform p m = Inr q"
  shows "int_point q"
proof (cases m)
  case (Max other)
  with assms show ?thesis
    by (cases other) (auto simp: Point_max_def int_point_Point_init)
next
  case (Min other)
  with assms show ?thesis
    by (cases other) (auto simp: Point_min_def int_point_Point_init)
next
  case (Mirror axis)
  with assms show ?thesis by (simp add: mirror_raises)
next
  case (TrueDiv other)
  with assms show ?thesis
    by (cases other) (auto simp: Point_truediv_def dest: int_point_both)
next
  case (FloorDiv other)
  with assms show ?thesis
    by (cases other) (auto simp: Point_floordiv_def dest: int_point_both)
next
  case (Mod other)
  with assms show ?thesis
    by (cases other) (auto simp: Point_mod_def dest: int_point_both)
next
  case (RTrueDiv other)
  with assms show ?thesis
    by (cases other) (auto simp: Point_rtruediv_def dest: int_point_both)
next
  case (RFloorDiv other)
  with assms show ?thesis
    by (cases other) (auto simp: Point_rfloordiv_def dest: int_point_both)
next
  case (RMod other)
  with assms show ?thesis
    by (cases other) (auto simp: Point_rmod_def dest: int_point_both)
qed (use assms in \<open>auto simp: Point_copy_def Point_round_def Point_abs_def Point_neg_def
       Point_floor_def Point_ceil_def Point_add_def Point_sub_def Point_mul_def
       Point_radd_def Point_rsub_def Point_rmul_def scale_def translate_def
       int_point_Point_init split: operand.splits\<close>)

text \<open>
  C10: every Point has integer coordinates. The constructor stores \<open>int(float(x))\<close> and
  \<open>int(float(y))\<close>, and every method that returns a Point (copy, max, min, rounding,
  abs, negation, mirror, floor, ceil and the arithmetic operators) builds it through the
  constructor or returns its receiver, so both coordinates of every reachable Point are
  ints.
\<close>

theorem reachable_point_is_integer:
  assumes "reachable p"
  shows "is_int (point_x p) \<and> is_int (point_y p)"
proof -
  from assms have "int_point p"
    by (induction rule: reachable.induct) (auto simp: int_point_Point_init intro: int_point_perform)
  then show ?thesis by (simp add: int_point_def)
qed

theorem reachable_point_is_integer_witness:
  "reachable \<lparr>point_x = PInt 1, point_y = PInt (- 2)\<rparr>
   \<and> is_int (point_x \<lparr>point_x = PInt 1, point_y = PInt (- 2)\<rparr>)
   \<and> is_int (point_y \<lparr>point_x = PInt 1, point_y = PInt (- 2)\<rparr>)"
proof -
  have c: "reachable (Point_init (PFloat (5 / 2)) (PInt (- 4)))"
    by (rule reachable.constructed)
  have "perform (Point_init (PFloat (5 / 2)) (PInt (- 4))) (TrueDiv (ONum (PInt 2)))
        = Inr \<lparr>point_x = PInt 1, point_y = PInt (- 2)\<rparr>"
    by (simp add: Point_truediv_def both_def num_truediv_def Point_init_def py_int_def
          py_float_def)
  with c have r: "reachable \<lparr>point_x = PInt 1, point_y = PInt (- 2)\<rparr>"
    by (rule reachable.returned)
  with reachable_point_is_integer [OF r] show ?thesis by simp
qed

section \<open>Properties of the module initialisation\<close>

lemma exec_module_head: "exec_module (module_head @ rest) [] = exec_module rest head_namespace"
  by (simp add: module_head_def head_namespace_def import_stmt_def assign_def bind_def)

lemma assign_call_unbound:
  "map_of ns callee = None \<Longrightarrow> assign_call name callee args ns = Inl (NameError callee)"
  by (simp add: assign_call_def lookup_def)

lemma stmt_standardSettings_unbound:
  "map_of ns ''getMinimumFontHeight'' = None \<Longrightarrow>
   stmt_standardSettings ns = Inl (NameError ''getMinimumFontHeight'')"
  by (simp add: stmt_standardSettings_def lookup_def)

lemma stmt_touchScreenSettings_dict:
  "map_of ns ''standardSettings'' = Some (VDict d) \<Longrightarrow>
   stmt_touchScreenSettings ns = Inl (AttributeError ''minimumFontHeight'')"
  by (simp add: stmt_touchScreenSettings_def lookup_def getattr_def dict_getattr_def)

lemma head_namespace_unbound:
  "map_of head_namespace ''Point'' = None"
  "map_of head_namespace ''Color'' = None"
  "map_of head_namespace ''getMinimumFontHeight'' = None"
  "map_of head_namespace ''standardSettings'' = None"
  "map_of head_namespace ''touchScreenSettings'' = None"
  "map_of head_namespace ''MorphicPreferences'' = None"
  "map_of head_namespace ''Animation'' = None"
  by (simp_all add: head_namespace_def)

text \<open>
  C8: the top-level statements, run in source order, read \<open>Point\<close>, \<open>Color\<close> and
  \<open>getMinimumFontHeight\<close> (for \<open>ZERO\<close>, \<open>BLACK\<close>, \<open>WHITE\<close>, \<open>CLEAR\<close> and
  \<open>standardSettings\<close>) before the statements that bind them, and \<open>touchScreenSettings\<close>
  reads \<open>minimumFontHeight\<close> as an attribute of the dict \<open>standardSettings\<close>. The import
  stops at \<open>ZERO\<close> with a \<^verbatim>\<open>NameError\<close> for \<open>Point\<close>, in a namespace that holds the
  imported modules and the three plain constants only: no class and no setting is bound.
\<close>

theorem module_import_raises_NameError:
  "exec_module module_body [] = Inl (NameError ''Point'', head_namespace)
   \<and> stmt_ZERO head_namespace = Inl (NameError ''Point'')
   \<and> stmt_BLACK head_namespace = Inl (NameError ''Color'')
   \<and> stmt_WHITE head_namespace = Inl (NameError ''Color'')
   \<and> stmt_CLEAR head_namespace = Inl (NameError ''Color'')
   \<and> stmt_standardSettings head_namespace = Inl (NameError ''getMinimumFontHeight'')
   \<and> stmt_touchScreenSettings (bind ''standardSettings'' (VDict d) ns)
       = Inl (AttributeError ''minimumFontHeight'')
   \<and> map_of head_namespace ''Animation'' = None
   \<and> map_of head_namespace ''Color'' = None
   \<and> map_of head_namespace ''Point'' = None
   \<and> map_of head_namespace ''standardSettings'' = None
   \<and> map_of head_namespace ''touchScreenSettings'' = None
   \<and> map_of head_namespace ''MorphicPreferences'' = None"
proof -
  have z: "stmt_ZERO head_namespace = Inl (NameError ''Point'')"
    by (simp add: stmt_ZERO_def assign_call_unbound head_namespace_unbound)
  have "exec_module module_body [] = exec_module (module_settings @ module_definitions) head_namespace"
    unfolding module_body_def by (rule exec_module_head)
  also have "\<dots> = Inl (NameError ''Point'', head_namespace)"
    by (simp add: module_settings_def z)
  finally have run: "exec_module module_body [] = Inl (NameError ''Point'', head_namespace)" .
  have t: "stmt_touchScreenSettings (bind ''standardSettings'' (VDict d) ns)
       = Inl (AttributeError ''minimumFontHeight'')"
    by (rule stmt_touchScreenSettings_dict) (simp add: bind_def)
  show ?thesis
    by (simp add: run z t stmt_BLACK_def stmt_WHITE_def stmt_CLEAR_def assign_call_unbound
          stmt_standardSettings_unbound head_namespace_unbound)
qed

text \<open>
  C7: the claim is that the standard and the touch-screen profile each evaluate to a
  settings record and that the active configuration is one of them. The import stops
  before either is bound. Even in a namespace where \<open>Point\<close>, \<open>Color\<close> and
  \<open>getMinimumFontHeight\<close> are bound beforehand, the standard profile is built (drag
  threshold 5, scroll amount 40, touch flag false, minimum font height 1), and the
  touch-screen profile then raises \<^verbatim>\<open>AttributeError\<close>, so neither it nor
  \<open>MorphicPreferences\<close> is ever bound.
\<close>

theorem settings_profiles_not_built:
  "(\<exists>ns. exec_module module_body [] = Inl (NameError ''Point'', ns)
         \<and> map_of ns ''standardSettings'' = None
         \<and> map_of ns ''touchScreenSettings'' = None
         \<and> map_of ns ''MorphicPreferences'' = None)
   \<and> (\<exists>ns std. exec_module module_settings late_names_bound
                  = Inl (AttributeError ''minimumFontHeight'', ns)
         \<and> map_of ns ''standardSettings'' = Some (VDict std)
         \<and> map_of std ''grabThreshold'' = Some (VInt 5)
         \<and> map_of std ''mouseScrollAmount'' = Some (VInt 40)
         \<and> map_of std ''isTouchDevice'' = Some (VBool False)
         \<and> map_of std ''minimumFontHeight'' = Some (VInt 1)
         \<and> map_of ns ''touchScreenSettings'' = None
         \<and> map_of ns ''MorphicPreferences'' = None)"
proof -
  have "exec_module module_body [] = exec_module (module_settings @ module_definitions) head_namespace"
    unfolding module_body_def by (rule exec_module_head)
  also have "\<dots> = Inl (NameError ''Point'', head_namespace)"
    by (simp add: module_settings_def stmt_ZERO_def assign_call_unbound head_namespace_unbound)
  finally have first: "\<exists>ns. exec_module module_body [] = Inl (NameError ''Point'', ns)
         \<and> map_of ns ''standardSettings'' = None
         \<and> map_of ns ''touchScreenSettings'' = None
         \<and> map_of ns ''MorphicPreferences'' = None"
    by (simp add: head_namespace_unbound)
  have second: "\<exists>ns std. exec_module module_settings late_names_bound
                  = Inl (AttributeError ''minimumFontHeight'', ns)
         \<and> map_of ns ''standardSettings'' = Some (VDict std)
         \<and> map_of std ''grabThreshold'' = Some (VInt 5)
         \<and> map_of std ''mouseScrollAmount'' = Some (VInt 40)
         \<and> map_of std ''isTouchDevice'' = Some (VBool False)
         \<and> map_of std ''minimumFontHeight'' = Some (VInt 1)
         \<and> map_of ns ''touchScreenSettings'' = None
         \<and> map_of ns ''MorphicPreferences'' = None"
    by (simp add: module_settings_def late_names_bound_def stmt_ZERO_def stmt_BLACK_def
          stmt_WHITE_def stmt_CLEAR_def assign_call_def lookup_def call_def bind_def arg_def
          stmt_standardSettings_def stmt_touchScreenSettings_def getattr_def dict_getattr_def
          getMinimumFontHeight_def)
  from first second show ?thesis by blast
qed

section \<open>Properties of the node tree\<close>

lemma finite_parent_rel: "finite (dom (parent t)) \<Longrightarrow> finite (parent_rel t)"
proof -
  assume f: "finite (dom (parent t))"
  have "parent_rel t \<subseteq> (\<lambda>c. (c, the (parent t c))) ` dom (parent t)"
    by (auto simp: parent_rel_def image_iff dom_def)
  with f show ?thesis by (meson finite_imageI finite_subset)
qed

lemma wf_parent_rel: "tree_inv t \<Longrightarrow> wf ((parent_rel t)\<inverse>)"
  by (simp add: tree_inv_def finite_acyclic_wf_converse finite_parent_rel)

lemma parent_rel_step:
  "parent t n = Some p \<Longrightarrow> n \<noteq> a \<Longrightarrow> (n, a) \<in> (parent_rel t)\<^sup>* \<longleftrightarrow> (p, a) \<in> (parent_rel t)\<^sup>*"
proof
  assume n: "parent t n = Some p" "n \<noteq> a" and r: "(n, a) \<in> (parent_rel t)\<^sup>*"
  from r n(2) obtain m where "(n, m) \<in> parent_rel t" "(m, a) \<in> (parent_rel t)\<^sup>*"
    by (meson converse_rtranclE)
  with n(1) show "(p, a) \<in> (parent_rel t)\<^sup>*" by (simp add: parent_rel_def)
next
  assume "parent t n = Some p" "(p, a) \<in> (parent_rel t)\<^sup>*"
  then show "(n, a) \<in> (parent_rel t)\<^sup>*"
    by (simp add: parent_rel_def converse_rtrancl_into_rtrancl)
qed

lemma parent_rel_stuck:
  "parent t n = None \<Longrightarrow> n \<noteq> a \<Longrightarrow> (n, a) \<notin> (parent_rel t)\<^sup>*"
  by (auto simp: parent_rel_def elim: converse_rtranclE)

lemma is_ancestor_correct:
  assumes "wf ((parent_rel t)\<inverse>)"
  shows "is_ancestor t a n = Some ((n, a) \<in> (parent_rel t)\<^sup>*)"
  using assms
proof (induction n rule: wf_induct_rule)
  case (less n)
  show ?case
  proof (cases "n = a")
    case True
    then show ?thesis by (subst is_ancestor.simps) simp
  next
    case False
    show ?thesis
    proof (cases "parent t n")
      case None
      with False show ?thesis
        by (subst is_ancestor.simps) (simp add: parent_rel_stuck)
    next
      case (Some p)
      then have "(p, n) \<in> (parent_rel t)\<inverse>" by (simp add: parent_rel_def)
      then have "is_ancestor t a p = Some ((p, a) \<in> (parent_rel t)\<^sup>*)" by (rule less.IH)
      with False Some show ?thesis
        by (subst is_ancestor.simps) (simp add: parent_rel_step)
    qed
  qed
qed

lemma tree_inv_no_links: "tree_inv no_links"
  by (simp add: tree_inv_def no_links_def parent_rel_def acyclic_def)

lemma parent_remove: "parent (remove t n) = (parent t)(n := None)"
  by (auto simp: remove_def split: option.splits)

lemma parent_rel_remove: "parent_rel (remove t n) \<subseteq> parent_rel t"
  by (auto simp: parent_rel_def parent_remove split: if_splits)

lemma tree_inv_remove:
  assumes "tree_inv t"
  shows "tree_inv (remove t n)"
proof (cases "parent t n")
  case None
  with assms show ?thesis by (simp add: remove_def)
next
  case (Some p0)
  from assms have fin: "finite (dom (parent t))" and acy: "acyclic (parent_rel t)"
    and mem: "\<And>p c. c \<in> set (children t p) \<longleftrightarrow> parent t c = Some p"
    and dis: "\<And>p. distinct (children t p)"
    by (simp_all add: tree_inv_def)
  have ch: "children (remove t n) = (children t)(p0 := remove1 n (children t p0))"
    using Some by (simp add: remove_def)
  have 1: "finite (dom (parent (remove t n)))"
    using fin by (simp add: parent_remove)
  have 2: "acyclic (parent_rel (remove t n))"
    using acy parent_rel_remove by (rule acyclic_subset)
  have 3: "c \<in> set (children (remove t n) p) \<longleftrightarrow> parent (remove t n) c = Some p" for p c
    using Some mem dis by (auto simp: ch parent_remove)
  have 4: "distinct (children (remove t n) p)" for p
    using dis by (simp add: ch)
  from 1 2 3 4 show ?thesis by (simp add: tree_inv_def)
qed

lemma parent_remove_self: "parent (remove t c) c = None"
  by (simp add: parent_remove)

lemma tree_inv_attach:
  assumes inv: "tree_inv t" and free: "parent t c = None"
    and notanc: "(p, c) \<notin> (parent_rel t)\<^sup>*"
  shows "tree_inv (attach t p c atBack)"
proof -
  from inv have fin: "finite (dom (parent t))" and acy: "acyclic (parent_rel t)"
    and mem: "\<And>p c. c \<in> set (children t p) \<longleftrightarrow> parent t c = Some p"
    and dis: "\<And>p. distinct (children t p)"
    by (simp_all add: tree_inv_def)
  have rel: "parent_rel (attach t p c atBack) = insert (c, p) (parent_rel t)"
    using free by (auto simp: parent_rel_def attach_def split: if_splits)
  have 1: "finite (dom (parent (attach t p c atBack)))"
    using fin by (simp add: attach_def)
  have 2: "acyclic (parent_rel (attach t p c atBack))"
    using acy notanc by (simp add: rel)
  have new: "c \<notin> set (children t q)" for q
    using free mem by simp
  have 3: "x \<in> set (children (attach t p c atBack) q) \<longleftrightarrow> parent (attach t p c atBack) x = Some q"
    for q x
    using mem free by (auto simp: attach_def)
  have 4: "distinct (children (attach t p c atBack) q)" for q
    using dis new by (simp add: attach_def)
  from 1 2 3 4 show ?thesis by (simp add: tree_inv_def)
qed

lemma addChild_inv:
  assumes "tree_inv t"
  shows "\<exists>t1. addChild t p c atBack = Some t1 \<and> tree_inv t1"
proof -
  have anc: "is_ancestor t c p = Some ((p, c) \<in> (parent_rel t)\<^sup>*)"
    using assms by (simp add: is_ancestor_correct wf_parent_rel)
  show ?thesis
  proof (cases "(p, c) \<in> (parent_rel t)\<^sup>*")
    case True
    with anc assms show ?thesis by (simp add: addChild_def)
  next
    case False
    have "(p, c) \<notin> (parent_rel (remove t c))\<^sup>*"
      using False rtrancl_mono [OF parent_rel_remove] by blast
    then have "tree_inv (attach (remove t c) p c atBack)"
      using assms by (intro tree_inv_attach tree_inv_remove parent_remove_self)
    with anc False show ?thesis by (simp add: addChild_def)
  qed
qed

lemma apply_ops_inv:
  "tree_inv t \<Longrightarrow> \<exists>t1. apply_ops ops t = Some t1 \<and> tree_inv t1"
proof (induction ops arbitrary: t)
  case Nil
  then show ?case by simp
next
  case (Cons op ops)
  show ?case
  proof (cases op)
    case (AddChild p c atBack)
    from addChild_inv [OF Cons.prems] obtain t1
      where "addChild t p c atBack = Some t1" "tree_inv t1" by blast
    with Cons.IH [of t1] AddChild show ?thesis by simp
  next
    case (Remove n)
    with Cons.IH [OF tree_inv_remove [OF Cons.prems]] show ?thesis by simp
  qed
qed

text \<open>
  C5: for every sequence of \<^verbatim>\<open>addChild\<close> and \<^verbatim>\<open>remove\<close> operations applied to
  a collection of nodes, every operation returns, the resulting tree is acyclic, and
  every node appears in at most one parent's child sequence, and only once there.
\<close>

theorem tree_stays_acyclic:
  "\<exists>t. apply_ops ops no_links = Some t
       \<and> acyclic (parent_rel t)
       \<and> (\<forall>c p q. c \<in> set (children t p) \<longrightarrow> c \<in> set (children t q) \<longrightarrow> p = q)
       \<and> (\<forall>p. distinct (children t p))"
proof -
  from apply_ops_inv [OF tree_inv_no_links] obtain t
    where t: "apply_ops ops no_links = Some t" "tree_inv t" by blast
  from t(2) have "acyclic (parent_rel t)"
    and "\<forall>c p q. c \<in> set (children t p) \<longrightarrow> c \<in> set (children t q) \<longrightarrow> p = q"
    and "\<forall>p. distinct (children t p)"
    by (auto simp: tree_inv_def)
  with t(1) show ?thesis by blast
qed

lemma apply_ops_example:
  "apply_ops [AddChild 1 2 False, AddChild 2 1 False, AddChild 3 2 True, AddChild 3 4 False] no_links
   = Some \<lparr>parent = (\<lambda>n. None)(2 \<mapsto> 3, 4 \<mapsto> 3), children = (\<lambda>n. [])(3 := [2, 4], 1 := [])\<rparr>"
  apply (simp add: addChild_def is_ancestor.simps no_links_def remove_def attach_def)
  apply (auto simp: fun_eq_iff)
  done

theorem tree_stays_acyclic_witness:
  "\<exists>t. apply_ops [AddChild 1 2 False, AddChild 2 1 False, AddChild 3 2 True, AddChild 3 4 False]
          no_links = Some t
       \<and> acyclic (parent_rel t)
       \<and> 2 \<in> set (children t 3) \<and> 2 \<notin> set (children t 1)
       \<and> distinct (children t 3)"
proof -
  from tree_stays_acyclic
    [of "[AddChild 1 2 False, AddChild 2 1 False, AddChild 3 2 True, AddChild 3 4 False]"]
  obtain t where t:
    "apply_ops [AddChild 1 2 False, AddChild 2 1 False, AddChild 3 2 True, AddChild 3 4 False]
       no_links = Some t"
    "acyclic (parent_rel t)"
    "\<forall>c p q. c \<in> set (children t p) \<longrightarrow> c \<in> set (children t q) \<longrightarrow> p = q"
    "\<forall>p. distinct (children t p)"
    by blast
  from t(1) [unfolded apply_ops_example] have "children t 3 = [2, 4]"
    by auto
  then have in3: "2 \<in> set (children t 3)" by simp
  with t(3) have "2 \<in> set (children t 1) \<longrightarrow> (1::nat) = 3" by blast
  then have "2 \<notin> set (children t 1)" by simp
  with t in3 show ?thesis by blast
qed

end
